theory Spec2Isabelle
  imports Complex_Main
begin

section \<open>Arrays and the library calls of \<open>ott/tools/plot.py\<close>\<close>

text \<open>
  The module works on JAX arrays of floats. An array entry is modelled as a \<^typ>\<open>real\<close>:
  arithmetic is exact, and rounding, overflow, infinities and NaN are outside the model.
  A two-dimensional array carries its shape next to its rows, since the code reads
  \<open>shape\<close> also of arrays that have no row. A one-dimensional array is a list.
\<close>

record 'a ndarray =
  shape0 :: nat
  shape1 :: nat
  rows :: "'a list list"

text \<open>The representation invariant: the rows agree with the shape.\<close>

definition wf_array :: "'a ndarray \<Rightarrow> bool" where
  "wf_array A \<longleftrightarrow> length (rows A) = shape0 A \<and> (\<forall>r \<in> set (rows A). length r = shape1 A)"

text \<open>
  What a call can end with instead of a value. All but the last are Python exceptions,
  named after the place that raises them:
  \<^item> \<open>MatplotlibMissing\<close>: \<open>RuntimeError("Please install `matplotlib` first.")\<close>;
  \<^item> \<open>GeometryKindError\<close>: \<open>ValueError("So far we only plot PointCloud geometry.")\<close>;
  \<^item> \<open>MatrixIsNone\<close>: \<open>ValueError("The `matrix` argument cannot be None.")\<close>;
  \<^item> \<open>ZeroSizeReduction\<close>: the \<open>ValueError\<close> of \<open>jnp.min\<close> and \<open>jnp.max\<close> on an array
    without elements (a reduction that has no identity);
  \<^item> \<open>NoneAttribute\<close>: the \<open>AttributeError\<close> of a method call on \<open>None\<close> or of reading an
    attribute the object does not have;
  \<^item> \<open>SvdsTypeError\<close>: the \<open>TypeError\<close> of \<open>scipy.sparse.linalg.svds\<close> for an argument
    of a type it does not accept;
  \<^item> \<open>SvdsError\<close>: whatever else \<open>scipy.sparse.linalg.svds\<close> raises;
  \<^item> \<open>OverflowError\<close>: a Python integer that does not fit the 32-bit integer type
    meets a JAX array in arithmetic;
  \<^item> \<open>ScatterArguments\<close>: the \<open>TypeError\<close> of the call \<open>ax.scatter(*pts.T, s=...)\<close> when
    \<open>pts.T\<close> does not unpack into the two positional arguments \<open>x\<close> and \<open>y\<close>;
  \<^item> \<open>ScatterSizes\<close>: the \<open>ValueError\<close> of \<open>ax.scatter\<close> for sizes that are neither one
    number nor as many as the points;
  \<^item> \<open>OffsetsIndexError\<close>: the \<open>IndexError\<close> of \<open>set_offsets\<close> for offsets with fewer
    than two columns;
  \<^item> \<open>ShapeMismatch\<close>: the error of \<open>jnp.matmul\<close> and of broadcasting for shapes that
    do not fit.

  \<open>NonFinite\<close> is no exception: the call returns, and a value it has computed is \<open>inf\<close>
  or \<open>nan\<close>, which the reals do not have.
\<close>

datatype failure =
  MatplotlibMissing
| GeometryKindError
| MatrixIsNone
| ZeroSizeReduction
| NoneAttribute
| SvdsTypeError
| SvdsError
| OverflowError
| ScatterArguments
| ScatterSizes
| OffsetsIndexError
| ShapeMismatch
| NonFinite

text \<open>
  A Python integer that meets a JAX array in arithmetic is converted to the default
  integer type of JAX, which has 32 bits; outside its range the conversion raises
  \<open>OverflowError\<close>.
\<close>

definition fits_int32 :: "int \<Rightarrow> bool" where
  "fits_int32 k \<longleftrightarrow> - (2 ^ 31) \<le> k \<and> k < 2 ^ 31"

text \<open>\<open>jnp.min(c)\<close> and \<open>jnp.max(c)\<close> of a one-dimensional array.\<close>

fun jnp_min :: "real list \<Rightarrow> failure + real" where
  "jnp_min [] = Inl ZeroSizeReduction"
| "jnp_min (v # vs) = Inr (fold min vs v)"

fun jnp_max :: "real list \<Rightarrow> failure + real" where
  "jnp_max [] = Inl ZeroSizeReduction"
| "jnp_max (v # vs) = Inr (fold max vs v)"

text \<open>
  Reading position \<open>i\<close> of a JAX array: an index beyond the end is clamped to the last
  position. For arrays of the shapes the callers pass, every index is in range.
\<close>

definition jnp_get :: "'a list \<Rightarrow> nat \<Rightarrow> 'a" where
  "jnp_get xs i = xs ! min i (length xs - 1)"

text \<open>\<open>x[u]\<close> for an index array \<open>u\<close>: the rows of \<open>x\<close> at these indices, in the order of \<open>u\<close>.\<close>

definition take_rows :: "'a ndarray \<Rightarrow> nat list \<Rightarrow> 'a list list" where
  "take_rows x u = map (jnp_get (rows x)) u"

text \<open>\<open>matrix > threshold\<close>: the Boolean array of the same shape.\<close>

definition greater_than :: "real ndarray \<Rightarrow> real \<Rightarrow> bool ndarray" where
  "greater_than matrix t =
     \<lparr>shape0 = shape0 matrix, shape1 = shape1 matrix,
      rows = map (map (\<lambda>v. t < v)) (rows matrix)\<rparr>"

text \<open>
  \<open>jnp.where(cond)\<close> with one argument: the row indices and the column indices of the
  true entries, as two arrays of one length, the entries taken row by row.
\<close>

definition jnp_where :: "bool ndarray \<Rightarrow> nat list \<times> nat list" where
  "jnp_where cond =
     (let hits = concat (map (\<lambda>i. map (\<lambda>j. (i, j))
                   (filter (\<lambda>j. rows cond ! i ! j) [0..<shape1 cond])) [0..<shape0 cond])
      in (map fst hits, map snd hits))"

text \<open>\<open>matrix[(u, v)]\<close>: the entries at the paired indices.\<close>

definition index_pairs :: "'a ndarray \<Rightarrow> nat list \<times> nat list \<Rightarrow> 'a list" where
  "index_pairs matrix uv = map2 (\<lambda>i j. jnp_get (jnp_get (rows matrix) i) j) (fst uv) (snd uv)"

text \<open>\<open>jnp.concatenate([x, y], axis=0)\<close> of two arrays of one width.\<close>

definition concatenate0 :: "'a ndarray \<Rightarrow> 'a ndarray \<Rightarrow> 'a ndarray" where
  "concatenate0 x y =
     \<lparr>shape0 = shape0 x + shape0 y, shape1 = shape1 x, rows = rows x @ rows y\<rparr>"

text \<open>\<open>u * s\<close> for a two-dimensional \<open>u\<close> and a vector \<open>s\<close> as long as a row: broadcasting
  multiplies every row by \<open>s\<close>, entry by entry.\<close>

definition broadcast_mul :: "real ndarray \<Rightarrow> real list \<Rightarrow> real ndarray" where
  "broadcast_mul u s = u\<lparr>rows := map (\<lambda>r. map2 (*) r s) (rows u)\<rparr>"

text \<open>The slices \<open>proj[:k]\<close> and \<open>proj[k:]\<close> along the first axis.\<close>

definition slice_to :: "'a ndarray \<Rightarrow> nat \<Rightarrow> 'a ndarray" where
  "slice_to A k = A\<lparr>shape0 := min k (shape0 A), rows := take k (rows A)\<rparr>"

definition slice_from :: "'a ndarray \<Rightarrow> nat \<Rightarrow> 'a ndarray" where
  "slice_from A k = A\<lparr>shape0 := shape0 A - k, rows := drop k (rows A)\<rparr>"

text \<open>\<open>np.clip(v, lo, hi)\<close>, which is \<open>minimum(maximum(v, lo), hi)\<close>, on the reals of this
  model. What it does with the other values of the floats is \<open>ieee_clip01\<close> below.\<close>

definition np_clip :: "real \<Rightarrow> real \<Rightarrow> real \<Rightarrow> real" where
  "np_clip v lo hi = min (max v lo) hi"

text \<open>\<open>jnp.ones(n)\<close>.\<close>

definition jnp_ones :: "nat \<Rightarrow> real list" where
  "jnp_ones n = replicate n 1"

text \<open>\<open>jnp.matmul(A, B)\<close> of an \<open>n\<times>k\<close> and a \<open>k\<times>m\<close> array.\<close>

definition matmul :: "real ndarray \<Rightarrow> real ndarray \<Rightarrow> real ndarray" where
  "matmul A B =
     \<lparr>shape0 = shape0 A, shape1 = shape1 B,
      rows = map (\<lambda>r. map (\<lambda>j. \<Sum>k\<leftarrow>[0..<shape0 B]. r ! k * (rows B ! k ! j)) [0..<shape1 B])
               (rows A)\<rparr>"

section \<open>The dimensionality reducer\<close>

text \<open>
  \<open>scipy.sparse.linalg.svds(A, k)\<close> is not code of this module. Its first step converts
  \<open>A\<close> to a linear operator: a NumPy array, a sparse matrix or a linear operator is
  accepted, and an object of another type, such as the array of JAX, raises
  \<open>TypeError("type not understood")\<close>. What the routine does with an argument it accepts
  is a parameter of the model: a function from the array and \<open>k\<close> to the triple
  \<open>(u, s, vt)\<close>, or to \<open>None\<close> when the routine raises.
\<close>

datatype array_type = numpy_ndarray | jax_Array

type_synonym svds =
  "real ndarray \<Rightarrow> nat \<Rightarrow> (real ndarray \<times> real list \<times> real ndarray) option"

definition scipy_svds ::
  "svds \<Rightarrow> array_type \<Rightarrow> real ndarray \<Rightarrow> nat \<Rightarrow>
     failure + (real ndarray \<times> real list \<times> real ndarray)" where
  "scipy_svds svds A_type A k =
     (if A_type \<noteq> numpy_ndarray then Inl SvdsTypeError
      else case svds A k of
             None \<Rightarrow> Inl SvdsError
           | Some usv \<Rightarrow> Inr usv)"

text \<open>\<open>bidimensional\<close> passes the result of \<open>jnp.concatenate\<close>, an array of JAX, to
  \<open>svds\<close>.\<close>

definition bidimensional ::
  "svds \<Rightarrow> real ndarray \<Rightarrow> real ndarray \<Rightarrow> failure + (real ndarray \<times> real ndarray)" where
  "bidimensional svds x y =
     (if shape1 x < 3 then Inr (x, y)
      else case scipy_svds svds jax_Array (concatenate0 x y) 2 of
             Inl e \<Rightarrow> Inl e
           | Inr (u, s, vt) \<Rightarrow>
               let proj = broadcast_mul u s;
                   k = shape0 x
               in Inr (slice_to proj k, slice_from proj k))"

section \<open>The plot object\<close>

text \<open>
  The drawing surface is modelled as the list of the artists drawn on it, each call
  recorded with the arguments the code passes; an artist's handle is its position in the
  list. Of what matplotlib does with the arguments, the checks that raise are modelled.
  \<open>cmap(strength)\<close> is kept as the pair of the colour map's name and the strength.
\<close>

datatype artist =
  PathCollection (offsets: "real ndarray") (sizes: "real list") (marker: string) (label: string)
| Line2D (xdata: "real list") (ydata: "real list") (linewidth: real)
    (color: "string \<times> real") (zorder: int) (line_alpha: real)

record axes =
  artists :: "artist list"
  legend_fontsize :: "nat option"

definition new_axes :: axes where
  "new_axes = \<lparr>artists = [], legend_fontsize = None\<rparr>"

text \<open>The fields of \<open>Plot\<close>; \<open>plot_threshold\<close> is \<open>self._threshold\<close>, and so on. The figure
  is used by \<open>animate\<close> only and is left out.\<close>

record plot =
  plot_ax :: axes
  plot_show_lines :: bool
  plot_lines :: "nat list"
  plot_points_x :: "nat option"
  plot_points_y :: "nat option"
  plot_threshold :: real
  plot_scale :: int
  plot_cmap :: string
  plot_scale_alpha_by_coupling :: bool
  plot_alpha :: real

text \<open>
  \<open>Plot.__init__\<close>. \<open>plt_present\<close> says whether matplotlib could be imported. An axes
  that is not given is a new one when no figure is given either, and the current axes
  \<open>plt.gca()\<close> otherwise. The defaults of the source are \<open>cost_threshold = -1.0\<close>,
  \<open>scale = 200\<close>, \<open>show_lines = True\<close>, \<open>cmap = "cool"\<close>,
  \<open>scale_alpha_by_coupling = False\<close> and \<open>alpha = 0.7\<close>.
\<close>

definition Plot_init ::
  "bool \<Rightarrow> axes \<Rightarrow> bool \<Rightarrow> axes option \<Rightarrow> real \<Rightarrow> int \<Rightarrow> bool \<Rightarrow> string \<Rightarrow> bool \<Rightarrow> real \<Rightarrow>
     failure + plot" where
  "Plot_init plt_present gca fig_given ax cost_threshold scale show_lines cmap
       scale_alpha_by_coupling alpha =
     (if \<not> plt_present then Inl MatplotlibMissing
      else Inr \<lparr>plot_ax = (case ax of
                            None \<Rightarrow> if fig_given then gca else new_axes
                          | Some given \<Rightarrow> given),
                plot_show_lines = show_lines,
                plot_lines = [],
                plot_points_x = None,
                plot_points_y = None,
                plot_threshold = cost_threshold,
                plot_scale = scale,
                plot_cmap = cmap,
                plot_scale_alpha_by_coupling = scale_alpha_by_coupling,
                plot_alpha = alpha\<rparr>)"

text \<open>A transport output: its geometry, the two marginals and the coupling matrix.
  \<open>ot_linear_geom\<close> is \<open>linear_state.geom\<close>, which only a \<open>GWOutput\<close> has.\<close>

datatype geometry =
  is_PointCloud: PointCloud (pc_x: "real ndarray") (pc_y: "real ndarray")
| OtherGeometry

record transport =
  ot_geom :: geometry
  ot_a :: "real list"
  ot_b :: "real list"
  ot_matrix :: "real ndarray"
  ot_linear_geom :: "geometry option"

definition Plot_scatter ::
  "svds \<Rightarrow> plot \<Rightarrow> transport \<Rightarrow>
     failure + (real ndarray \<times> real ndarray \<times> real list \<times> real list)" where
  "Plot_scatter svds self ot =
     (case ot_geom ot of
        OtherGeometry \<Rightarrow> Inl GeometryKindError
      | PointCloud x y \<Rightarrow>
          (case bidimensional svds x y of
             Inl e \<Rightarrow> Inl e
           | Inr (x', y') \<Rightarrow>
               if \<not> fits_int32 (plot_scale self) then Inl OverflowError
               else
                 let a = ot_a ot; b = ot_b ot;
                     scales_x = map (\<lambda>w. w * real_of_int (plot_scale self) * real (length a)) a;
                     scales_y = map (\<lambda>w. w * real_of_int (plot_scale self) * real (length b)) b
                 in Inr (x', y', scales_x, scales_y)))"

text \<open>An edge is the tuple \<open>(start, end, strength, alpha)\<close> that \<open>_mapping\<close> appends.\<close>

type_synonym edge = "real list \<times> real list \<times> real \<times> real"

text \<open>The body of the loop of \<open>_mapping\<close> at index \<open>i\<close>. \<open>min_matrix\<close> and \<open>max_matrix\<close>
  are read only when \<open>scale_alpha\<close> holds.\<close>

definition mapping_edge ::
  "plot \<Rightarrow> real ndarray \<Rightarrow> real list \<Rightarrow> real list list \<Rightarrow> bool \<Rightarrow> real \<Rightarrow> real \<Rightarrow> nat \<Rightarrow> edge" where
  "mapping_edge self matrix c xy scale_alpha min_matrix max_matrix i =
     (let strength = real (max (shape0 matrix) (shape1 matrix)) * jnp_get c i;
          alpha = (if scale_alpha
                   then plot_alpha self * ((jnp_get c i - min_matrix) / (max_matrix - min_matrix))
                   else plot_alpha self);
          alpha = np_clip alpha 0 1;
          start = [jnp_get (xy ! i) 0, jnp_get (xy ! i) 2];
          end_pt = [jnp_get (xy ! i) 1, jnp_get (xy ! i) 3]
      in (start, end_pt, strength, alpha))"

definition Plot_mapping ::
  "plot \<Rightarrow> real ndarray \<Rightarrow> real ndarray \<Rightarrow> real ndarray \<Rightarrow> failure + edge list" where
  "Plot_mapping self x y matrix =
     (let uv = jnp_where (greater_than matrix (plot_threshold self));
          c = index_pairs matrix uv;
          xy = map2 (@) (take_rows x (fst uv)) (take_rows y (snd uv))
      in if plot_scale_alpha_by_coupling self then
           (case jnp_min c of
              Inl e \<Rightarrow> Inl e
            | Inr min_matrix \<Rightarrow>
                (case jnp_max c of
                   Inl e \<Rightarrow> Inl e
                 | Inr max_matrix \<Rightarrow>
                     Inr (map (mapping_edge self matrix c xy (max_matrix \<noteq> min_matrix)
                                 min_matrix max_matrix) [0..<length xy])))
         else Inr (map (mapping_edge self matrix c xy False 0 0) [0..<length xy]))"

text \<open>
  The calls on the drawing surface: \<open>ax.scatter\<close> and \<open>ax.plot\<close> add an artist and
  return its handle, \<open>ax.legend\<close> sets the legend, and the setters change the artist
  behind a handle in place.

  \<open>ax.scatter(*pts.T, s=s, edgecolors="k", marker=m, label=l)\<close>: the rows of \<open>pts.T\<close>,
  one for each column of \<open>pts\<close>, are the positional arguments. \<open>scatter\<close> takes \<open>x\<close> and \<open>y\<close>
  and then \<open>s\<close>, which the call also gives by name, so that any number of columns but two
  raises \<open>TypeError\<close>. matplotlib then raises \<open>ValueError\<close> unless \<open>s\<close> has one entry or
  as many entries as there are points.
\<close>

definition ax_scatter ::
  "axes \<Rightarrow> real ndarray \<Rightarrow> real list \<Rightarrow> string \<Rightarrow> string \<Rightarrow> failure + (nat \<times> axes)" where
  "ax_scatter ax pts s m l =
     (if shape1 pts \<noteq> 2 then Inl ScatterArguments
      else if length s \<noteq> 1 \<and> length s \<noteq> shape0 pts then Inl ScatterSizes
      else Inr (length (artists ax),
                ax\<lparr>artists := artists ax @ [PathCollection pts s m l]\<rparr>))"

definition ax_legend :: "axes \<Rightarrow> nat \<Rightarrow> axes" where
  "ax_legend ax fontsize = ax\<lparr>legend_fontsize := Some fontsize\<rparr>"

text \<open>\<open>ax.plot(start, end, linewidth=0.5 + 4 * strength, color=cmap(strength), zorder=0,
  alpha=alpha)\<close> for one edge.\<close>

definition ax_plot :: "string \<Rightarrow> axes \<Rightarrow> edge \<Rightarrow> nat \<times> axes" where
  "ax_plot cmap ax e =
     (case e of (start, end_pt, strength, alpha) \<Rightarrow>
        (length (artists ax),
         ax\<lparr>artists := artists ax @
              [Line2D start end_pt (0.5 + 4 * strength) (cmap, strength) 0 alpha]\<rparr>))"

fun set_offsets :: "artist \<Rightarrow> real ndarray \<Rightarrow> artist" where
  "set_offsets (PathCollection _ s m l) pts = PathCollection pts s m l"
| "set_offsets other pts = other"

text \<open>\<open>set_offsets(pts)\<close> of the scatter behind a handle stacks the columns \<open>pts[:, 0]\<close> and
  \<open>pts[:, 1]\<close>; with fewer than two columns the index raises \<open>IndexError\<close>.\<close>

definition first_two_columns :: "real ndarray \<Rightarrow> real ndarray" where
  "first_two_columns pts = pts\<lparr>shape1 := 2, rows := map (take 2) (rows pts)\<rparr>"

definition ax_set_offsets :: "axes \<Rightarrow> nat \<Rightarrow> real ndarray \<Rightarrow> failure + axes" where
  "ax_set_offsets ax h pts =
     (if shape1 pts < 2 then Inl OffsetsIndexError
      else Inr (ax\<lparr>artists :=
                  (artists ax)[h := set_offsets (artists ax ! h) (first_two_columns pts)]\<rparr>))"

text \<open>\<open>set_data\<close>, \<open>set_linewidth\<close>, \<open>set_color\<close> and \<open>set_alpha\<close> of one line, from an edge.\<close>

fun set_line :: "string \<Rightarrow> artist \<Rightarrow> edge \<Rightarrow> artist" where
  "set_line cmap (Line2D _ _ _ _ z _) (start, end_pt, strength, alpha) =
     Line2D start end_pt (0.5 + 4 * strength) (cmap, strength) z alpha"
| "set_line cmap other e = other"

definition ax_set_line :: "string \<Rightarrow> axes \<Rightarrow> nat \<Rightarrow> edge \<Rightarrow> axes" where
  "ax_set_line cmap ax h e = ax\<lparr>artists := (artists ax)[h := set_line cmap (artists ax ! h) e]\<rparr>"

text \<open>The loop that plots one line for each edge and appends its handle to \<open>self._lines\<close>.\<close>

fun draw_lines :: "string \<Rightarrow> edge list \<Rightarrow> axes \<times> nat list \<Rightarrow> axes \<times> nat list" where
  "draw_lines cmap [] st = st"
| "draw_lines cmap (e # es) (ax, ls) =
     (case ax_plot cmap ax e of (h, ax') \<Rightarrow> draw_lines cmap es (ax', ls @ [h]))"

text \<open>The loop over \<open>zip(self._lines, new_lines)\<close> that resets the lines already there.\<close>

fun reset_lines :: "string \<Rightarrow> (nat \<times> edge) list \<Rightarrow> axes \<Rightarrow> axes" where
  "reset_lines cmap [] ax = ax"
| "reset_lines cmap ((h, e) # hes) ax = reset_lines cmap hes (ax_set_line cmap ax h e)"

text \<open>\<open>Plot.__call__\<close> returns the list of handles and leaves the object changed: the model
  returns both. After an exception the object is not looked at again.\<close>

definition Plot_call :: "svds \<Rightarrow> plot \<Rightarrow> transport \<Rightarrow> failure + (nat list \<times> plot)" where
  "Plot_call svds self ot =
     (case Plot_scatter svds self ot of
        Inl e \<Rightarrow> Inl e
      | Inr (x, y, sx, sy) \<Rightarrow>
          (case ax_scatter (plot_ax self) x sx ''o'' ''x'' of
             Inl e \<Rightarrow> Inl e
           | Inr (px, ax1) \<Rightarrow>
               (case ax_scatter ax1 y sy ''X'' ''y'' of
                  Inl e \<Rightarrow> Inl e
                | Inr (py, ax2) \<Rightarrow>
                    let self1 = self\<lparr>plot_ax := ax_legend ax2 15,
                                      plot_points_x := Some px, plot_points_y := Some py\<rparr>
                    in if \<not> plot_show_lines self1 then Inr ([], self1)
                       else (case Plot_mapping self1 x y (ot_matrix ot) of
                               Inl e \<Rightarrow> Inl e
                             | Inr lines \<Rightarrow>
                                 (case draw_lines (plot_cmap self1) lines
                                         (plot_ax self1, []) of
                                    (ax3, ls) \<Rightarrow>
                                      Inr ([px, py] @ ls,
                                           self1\<lparr>plot_ax := ax3, plot_lines := ls\<rparr>))))))"

definition Plot_update :: "svds \<Rightarrow> plot \<Rightarrow> transport \<Rightarrow> failure + (nat list \<times> plot)" where
  "Plot_update svds self ot =
     (case Plot_scatter svds self ot of
        Inl e \<Rightarrow> Inl e
      | Inr (x, y, _, _) \<Rightarrow>
          (case plot_points_x self of
             None \<Rightarrow> Inl NoneAttribute
           | Some px \<Rightarrow>
               (case plot_points_y self of
                  None \<Rightarrow> Inl NoneAttribute
                | Some py \<Rightarrow>
                   (case ax_set_offsets (plot_ax self) px x of
                      Inl e \<Rightarrow> Inl e
                    | Inr ax1 \<Rightarrow>
                   (case ax_set_offsets ax1 py y of
                      Inl e \<Rightarrow> Inl e
                    | Inr ax1' \<Rightarrow>
                    let self1 = self\<lparr>plot_ax := ax1'\<rparr>
                    in if \<not> plot_show_lines self1 then Inr ([], self1)
                       else (case Plot_mapping self1 x y (ot_matrix ot) of
                               Inl e \<Rightarrow> Inl e
                             | Inr new_lines \<Rightarrow>
                                 let ax2 = reset_lines (plot_cmap self1)
                                             (zip (plot_lines self1) new_lines) (plot_ax self1);
                                     num_lines = length (plot_lines self1);
                                     num_to_plot = (if plot_show_lines self1
                                                    then length new_lines else 0)
                                 in (case draw_lines (plot_cmap self1)
                                            (drop num_lines (take num_to_plot new_lines))
                                            (ax2, plot_lines self1) of
                                       (ax3, ls) \<Rightarrow>
                                         let ls' = take num_to_plot ls
                                         in Inr ([px, py] @ ls',
                                                 self1\<lparr>plot_ax := ax3, plot_lines := ls'\<rparr>))))))))"

section \<open>Barycentric projections\<close>

text \<open>
  \<open>1 / a[:, None] * T\<close>: the column of the \<open>1 / a[i]\<close> is broadcast against the array
  \<open>T\<close>. The shapes fit when \<open>a\<close> has as many entries as \<open>T\<close> has rows, or when one of
  the two numbers is 1; then row \<open>i\<close> of the result is the row of \<open>T\<close> multiplied by
  \<open>1 / a[i]\<close>.
\<close>

definition scale_rows :: "real list \<Rightarrow> real ndarray \<Rightarrow> failure + real ndarray" where
  "scale_rows a T =
     (if length a = shape0 T then
        Inr (T\<lparr>rows := map2 (\<lambda>w r. map (\<lambda>v. 1 / w * v) r) a (rows T)\<rparr>)
      else if length a = 1 then
        Inr (T\<lparr>rows := map (map (\<lambda>v. 1 / hd a * v)) (rows T)\<rparr>)
      else if shape0 T = 1 then
        Inr (T\<lparr>shape0 := length a,
               rows := map (\<lambda>w. map (\<lambda>v. 1 / w * v) (hd (rows T))) a\<rparr>)
      else Inl ShapeMismatch)"

text \<open>
  The size \<open>w / (m / scale)\<close> of a point, for a minimum \<open>m\<close> that is not zero: with
  \<open>scale = 0\<close> the quotient \<open>m / scale\<close> is infinite, and the size is zero.
\<close>

definition size_over :: "real \<Rightarrow> real \<Rightarrow> int \<Rightarrow> real" where
  "size_over w m scale = (if scale = 0 then 0 else w / (m / real_of_int scale))"

text \<open>
  \<open>_barycenters\<close> draws on \<open>ax\<close> and returns \<open>None\<close>; the model returns the surface. The
  exceptions come in the order of the source: the two reductions and the conversion of
  \<open>scale\<close>, the first scatter, the matrix product and the broadcast, the second scatter.
  A call that raises nothing has computed \<open>inf\<close> or \<open>nan\<close> exactly when a minimum is zero
  or \<open>a\<close> has an entry zero: the sizes are \<open>b / sb\<close> and \<open>a / sa\<close> with
  \<open>sa = min(a) / scale\<close> and \<open>sb = min(b) / scale\<close>, and \<open>tx\<close> divides by the entries
  of \<open>a\<close>.
\<close>

definition barycenters ::
  "axes \<Rightarrow> real ndarray \<Rightarrow> real list \<Rightarrow> real list \<Rightarrow> real ndarray \<Rightarrow> int \<Rightarrow> failure + axes" where
  "barycenters ax y a b matrix scale =
     (case jnp_min a of
        Inl e \<Rightarrow> Inl e
      | Inr min_a \<Rightarrow>
          if \<not> fits_int32 scale then Inl OverflowError
          else
            (case jnp_min b of
               Inl e \<Rightarrow> Inl e
             | Inr min_b \<Rightarrow>
                 (case ax_scatter ax y (map (\<lambda>w. size_over w min_b scale) b) ''X'' ''y'' of
                    Inl e \<Rightarrow> Inl e
                  | Inr (_, ax1) \<Rightarrow>
                      if shape1 matrix \<noteq> shape0 y then Inl ShapeMismatch
                      else
                        (case scale_rows a (matmul matrix y) of
                           Inl e \<Rightarrow> Inl e
                         | Inr tx \<Rightarrow>
                             (case ax_scatter ax1 tx (map (\<lambda>w. size_over w min_a scale) a)
                                     ''X'' ''T(x)'' of
                                Inl e \<Rightarrow> Inl e
                              | Inr (_, ax2) \<Rightarrow>
                                  if min_a = 0 \<or> min_b = 0 \<or> 0 \<in> set a then Inl NonFinite
                                  else Inr (ax_legend ax2 15))))))"

text \<open>
  The first argument of \<open>barycentric_projections\<close> is a JAX array or a transport
  output. Of \<open>**kwargs\<close> only \<open>scale\<close> reaches \<open>_barycenters\<close>, whose default is 200.
  \<open>plt_present\<close> says whether matplotlib could be imported: without it \<open>plt\<close> is \<open>None\<close>
  and \<open>plt.subplots\<close> fails.

  The function has two steps: it settles the arguments, and it calls \<open>_barycenters\<close> with
  them. \<open>barycentric_projections_args\<close> is the first step: the tuple
  \<open>(ax, y, a, b, matrix, scale)\<close> of the call.
\<close>

datatype projection_arg = JaxArray "real ndarray" | TransportOutput transport

type_synonym barycenters_args =
  "axes \<times> real ndarray \<times> real list \<times> real list \<times> real ndarray \<times> int"

definition barycentric_projections_args ::
  "bool \<Rightarrow> projection_arg \<Rightarrow> real list option \<Rightarrow> real list option \<Rightarrow> real ndarray option \<Rightarrow>
     axes option \<Rightarrow> int option \<Rightarrow> failure + barycenters_args" where
  "barycentric_projections_args plt_present arg a b matrix ax scale_kw =
     (case (case ax of
              None \<Rightarrow> if plt_present then Inr new_axes else Inl NoneAttribute
            | Some given \<Rightarrow> Inr given) of
        Inl e \<Rightarrow> Inl e
      | Inr ax \<Rightarrow>
          let scale = (case scale_kw of None \<Rightarrow> 200 | Some s \<Rightarrow> s)
          in case arg of
               JaxArray y \<Rightarrow>
                 (case matrix of
                    None \<Rightarrow> Inl MatrixIsNone
                  | Some matrix \<Rightarrow>
                      let a = (case a of
                                 None \<Rightarrow> map (\<lambda>v. v / real (shape0 matrix))
                                          (jnp_ones (shape0 matrix))
                               | Some given \<Rightarrow> given);
                          b = (case b of
                                 None \<Rightarrow> map (\<lambda>v. v / real (shape1 matrix))
                                          (jnp_ones (shape1 matrix))
                               | Some given \<Rightarrow> given)
                      in Inr (ax, y, a, b, matrix, scale))
             | TransportOutput ot \<Rightarrow>
                 (let geom = (case ot_linear_geom ot of Some g \<Rightarrow> g | None \<Rightarrow> ot_geom ot)
                  in case geom of
                       PointCloud _ y \<Rightarrow> Inr (ax, y, ot_a ot, ot_b ot, ot_matrix ot, scale)
                     | OtherGeometry \<Rightarrow> Inl NoneAttribute))"

definition barycentric_projections ::
  "bool \<Rightarrow> projection_arg \<Rightarrow> real list option \<Rightarrow> real list option \<Rightarrow> real ndarray option \<Rightarrow>
     axes option \<Rightarrow> int option \<Rightarrow> failure + axes" where
  "barycentric_projections plt_present arg a b matrix ax scale_kw =
     (case barycentric_projections_args plt_present arg a b matrix ax scale_kw of
        Inl e \<Rightarrow> Inl e
      | Inr (ax, y, a, b, matrix, scale) \<Rightarrow> barycenters ax y a b matrix scale)"

section \<open>The opacity in floating-point arithmetic\<close>

text \<open>
  The model above computes with exact reals. The opacity of \<open>_mapping\<close> is modelled a
  second time with the values that the floats add to the numbers: a value is a finite
  number, plus or minus infinity, or \<open>nan\<close>. A finite value is an exact real (rounding is
  left out), of a magnitude up to the largest float of the format; a result beyond it is
  infinite. The entries of the matrix and their differences and quotients are 32-bit
  floats, the default of JAX; the product with \<open>self._alpha\<close> is one of Python floats,
  which have 64 bits. Zero has no sign.
\<close>

datatype ieee = Finite real | PosInf | NegInf | NaN

definition float32_max :: real where
  "float32_max = (2 ^ 24 - 1) * 2 ^ 104"

definition float64_max :: real where
  "float64_max = (2 ^ 53 - 1) * 2 ^ 971"

definition overflow :: "real \<Rightarrow> real \<Rightarrow> ieee" where
  "overflow largest r =
     (if largest < r then PosInf else if r < - largest then NegInf else Finite r)"

fun ieee_sub :: "real \<Rightarrow> ieee \<Rightarrow> ieee \<Rightarrow> ieee" where
  "ieee_sub largest (Finite a) (Finite b) = overflow largest (a - b)"
| "ieee_sub largest NaN _ = NaN"
| "ieee_sub largest _ NaN = NaN"
| "ieee_sub largest PosInf PosInf = NaN"
| "ieee_sub largest NegInf NegInf = NaN"
| "ieee_sub largest PosInf (Finite b) = PosInf"
| "ieee_sub largest PosInf NegInf = PosInf"
| "ieee_sub largest NegInf (Finite b) = NegInf"
| "ieee_sub largest NegInf PosInf = NegInf"
| "ieee_sub largest (Finite a) PosInf = NegInf"
| "ieee_sub largest (Finite a) NegInf = PosInf"

fun ieee_div :: "real \<Rightarrow> ieee \<Rightarrow> ieee \<Rightarrow> ieee" where
  "ieee_div largest (Finite a) (Finite b) =
     (if b = 0 then (if a = 0 then NaN else if 0 < a then PosInf else NegInf)
      else overflow largest (a / b))"
| "ieee_div largest NaN _ = NaN"
| "ieee_div largest _ NaN = NaN"
| "ieee_div largest (Finite a) PosInf = Finite 0"
| "ieee_div largest (Finite a) NegInf = Finite 0"
| "ieee_div largest PosInf (Finite b) = (if b < 0 then NegInf else PosInf)"
| "ieee_div largest NegInf (Finite b) = (if b < 0 then PosInf else NegInf)"
| "ieee_div largest PosInf PosInf = NaN"
| "ieee_div largest PosInf NegInf = NaN"
| "ieee_div largest NegInf PosInf = NaN"
| "ieee_div largest NegInf NegInf = NaN"

fun ieee_mul :: "real \<Rightarrow> ieee \<Rightarrow> ieee \<Rightarrow> ieee" where
  "ieee_mul largest (Finite a) (Finite b) = overflow largest (a * b)"
| "ieee_mul largest NaN _ = NaN"
| "ieee_mul largest _ NaN = NaN"
| "ieee_mul largest (Finite a) PosInf =
     (if a = 0 then NaN else if 0 < a then PosInf else NegInf)"
| "ieee_mul largest (Finite a) NegInf =
     (if a = 0 then NaN else if 0 < a then NegInf else PosInf)"
| "ieee_mul largest PosInf (Finite b) =
     (if b = 0 then NaN else if 0 < b then PosInf else NegInf)"
| "ieee_mul largest NegInf (Finite b) =
     (if b = 0 then NaN else if 0 < b then NegInf else PosInf)"
| "ieee_mul largest PosInf PosInf = PosInf"
| "ieee_mul largest NegInf NegInf = PosInf"
| "ieee_mul largest PosInf NegInf = NegInf"
| "ieee_mul largest NegInf PosInf = NegInf"

text \<open>The comparison \<open>a < b\<close>, false when a side is \<open>nan\<close>, and \<open>a != b\<close>, true then.\<close>

fun ieee_less :: "ieee \<Rightarrow> ieee \<Rightarrow> bool" where
  "ieee_less NaN _ = False"
| "ieee_less _ NaN = False"
| "ieee_less (Finite a) (Finite b) = (a < b)"
| "ieee_less (Finite a) PosInf = True"
| "ieee_less (Finite a) NegInf = False"
| "ieee_less PosInf _ = False"
| "ieee_less NegInf (Finite b) = True"
| "ieee_less NegInf PosInf = True"
| "ieee_less NegInf NegInf = False"

definition ieee_neq :: "ieee \<Rightarrow> ieee \<Rightarrow> bool" where
  "ieee_neq a b \<longleftrightarrow> a = NaN \<or> b = NaN \<or> a \<noteq> b"

text \<open>The minimum and the maximum of two values, as the reductions \<open>jnp.min\<close> and
  \<open>jnp.max\<close> take them: \<open>nan\<close> when a side is \<open>nan\<close>.\<close>

definition ieee_min :: "ieee \<Rightarrow> ieee \<Rightarrow> ieee" where
  "ieee_min a b = (if a = NaN \<or> b = NaN then NaN else if ieee_less b a then b else a)"

definition ieee_max :: "ieee \<Rightarrow> ieee \<Rightarrow> ieee" where
  "ieee_max a b = (if a = NaN \<or> b = NaN then NaN else if ieee_less a b then b else a)"

text \<open>\<open>np.clip(v, 0.0, 1.0)\<close>, which is \<open>minimum(maximum(v, 0.0), 1.0)\<close> and keeps \<open>nan\<close>.\<close>

fun ieee_clip01 :: "ieee \<Rightarrow> ieee" where
  "ieee_clip01 (Finite v) = Finite (min (max v 0) 1)"
| "ieee_clip01 PosInf = Finite 1"
| "ieee_clip01 NegInf = Finite 0"
| "ieee_clip01 NaN = NaN"

text \<open>An array of reals as an array of finite floats.\<close>

definition embed_finite :: "real ndarray \<Rightarrow> ieee ndarray" where
  "embed_finite A = \<lparr>shape0 = shape0 A, shape1 = shape1 A, rows = map (map Finite) (rows A)\<rparr>"

text \<open>The array \<open>c\<close> of \<open>_mapping\<close>: the entries above the threshold, row by row.\<close>

definition selected_ieee :: "ieee ndarray \<Rightarrow> ieee \<Rightarrow> ieee list" where
  "selected_ieee matrix threshold =
     concat (map (filter (\<lambda>v. ieee_less threshold v)) (rows matrix))"

text \<open>
  The alphas of the edges that \<open>_mapping\<close> returns, in their order, for the threshold,
  the opacity flag and the base alpha of the plot object.
\<close>

definition mapping_alphas_ieee ::
  "ieee \<Rightarrow> bool \<Rightarrow> ieee \<Rightarrow> ieee ndarray \<Rightarrow> failure + ieee list" where
  "mapping_alphas_ieee threshold scale_alpha_by_coupling alpha matrix =
     (let c = selected_ieee matrix threshold
      in if scale_alpha_by_coupling then
           (case c of
              [] \<Rightarrow> Inl ZeroSizeReduction
            | v # vs \<Rightarrow>
                let min_matrix = fold ieee_min vs v;
                    max_matrix = fold ieee_max vs v
                in if ieee_neq max_matrix min_matrix then
                     Inr (map (\<lambda>ci. ieee_clip01
                                 (ieee_mul float64_max alpha
                                    (ieee_div float32_max
                                       (ieee_sub float32_max ci min_matrix)
                                       (ieee_sub float32_max max_matrix min_matrix)))) c)
                   else Inr (map (\<lambda>ci. ieee_clip01 alpha) c))
         else Inr (map (\<lambda>ci. ieee_clip01 alpha) c))"

section \<open>Notions of the specification\<close>

text \<open>
  The definitions of this section follow the words of the specification, not the code;
  the theorems below relate the code to them.

  The selected index pairs: the pairs \<open>(i, j)\<close> of the matrix with
  \<open>M[i,j] > threshold\<close>, in row-major order, and the entries at these pairs.
\<close>

definition spec_selected_pairs :: "real ndarray \<Rightarrow> real \<Rightarrow> (nat \<times> nat) list" where
  "spec_selected_pairs M t =
     filter (\<lambda>(i, j). t < rows M ! i ! j) (List.product [0..<shape0 M] [0..<shape1 M])"

definition spec_selected_values :: "real ndarray \<Rightarrow> real \<Rightarrow> real list" where
  "spec_selected_values M t = map (\<lambda>(i, j). rows M ! i ! j) (spec_selected_pairs M t)"

text \<open>Row-major order of index pairs: by row first, then by column.\<close>

definition row_major_less :: "nat \<times> nat \<Rightarrow> nat \<times> nat \<Rightarrow> bool" where
  "row_major_less p q \<longleftrightarrow> fst p < fst q \<or> (fst p = fst q \<and> snd p < snd q)"

text \<open>All entries of a vector are equal.\<close>

definition all_equal :: "real list \<Rightarrow> bool" where
  "all_equal c \<longleftrightarrow> (\<forall>v \<in> set c. \<forall>w \<in> set c. v = w)"

text \<open>The components of an edge.\<close>

definition edge_start :: "edge \<Rightarrow> real list" where
  "edge_start e = fst e"

definition edge_end :: "edge \<Rightarrow> real list" where
  "edge_end e = fst (snd e)"

definition edge_strength :: "edge \<Rightarrow> real" where
  "edge_strength e = fst (snd (snd e))"

definition edge_alpha :: "edge \<Rightarrow> real" where
  "edge_alpha e = snd (snd (snd e))"

text \<open>
  What \<open>_mapping\<close> emits for the pair \<open>p = (i, j)\<close>, apart from alpha: \<open>start\<close> holds the
  first coordinates of \<open>x[i]\<close> and \<open>y[j]\<close>, \<open>end\<close> their second coordinates (the two
  arguments that \<open>ax.plot\<close> takes for the segment from \<open>x[i]\<close> to \<open>y[j]\<close>), and the
  strength is \<open>max(n, m) * M[i,j]\<close>.
\<close>

definition segment_of_pair ::
  "real ndarray \<Rightarrow> real ndarray \<Rightarrow> real ndarray \<Rightarrow> nat \<times> nat \<Rightarrow>
     real list \<times> real list \<times> real" where
  "segment_of_pair x y M p =
     ([rows x ! fst p ! 0, rows y ! snd p ! 0], [rows x ! fst p ! 1, rows y ! snd p ! 1],
      real (max (shape0 M) (shape1 M)) * rows M ! fst p ! snd p)"

text \<open>The array \<open>xy\<close> of \<open>_mapping\<close>, one row for each selected pair.\<close>

definition mapping_xy ::
  "real ndarray \<Rightarrow> real ndarray \<Rightarrow> (nat \<times> nat) list \<Rightarrow> real list list" where
  "mapping_xy x y sel = map (\<lambda>p. jnp_get (rows x) (fst p) @ jnp_get (rows y) (snd p)) sel"

section \<open>Example inputs\<close>

text \<open>A plot object as \<open>__init__\<close> leaves it, with the given threshold, opacity flag and
  base alpha; three source points, two target points and their 3\<times>2 coupling with one
  dominant entry.\<close>

definition example_plot :: "real \<Rightarrow> bool \<Rightarrow> real \<Rightarrow> plot" where
  "example_plot t flag base =
     \<lparr>plot_ax = new_axes, plot_show_lines = True, plot_lines = [],
      plot_points_x = None, plot_points_y = None, plot_threshold = t, plot_scale = 200,
      plot_cmap = ''cool'', plot_scale_alpha_by_coupling = flag, plot_alpha = base\<rparr>"

definition example_x :: "real ndarray" where
  "example_x = \<lparr>shape0 = 3, shape1 = 2, rows = [[1, 2], [3, 4], [5, 6]]\<rparr>"

definition example_y :: "real ndarray" where
  "example_y = \<lparr>shape0 = 2, shape1 = 2, rows = [[10, 20], [30, 40]]\<rparr>"

definition example_matrix :: "real ndarray" where
  "example_matrix =
     \<lparr>shape0 = 3, shape1 = 2, rows = [[9/10, 1/100], [2/100, 3/100], [1/100, 3/100]]\<rparr>"


text \<open>Two batches of three-dimensional points, and a stand-in for \<open>svds\<close> that returns a
  fixed triple for them.\<close>

definition example_x3 :: "real ndarray" where
  "example_x3 = \<lparr>shape0 = 2, shape1 = 3, rows = [[1, 0, 0], [0, 1, 0]]\<rparr>"

definition example_y3 :: "real ndarray" where
  "example_y3 = \<lparr>shape0 = 1, shape1 = 3, rows = [[0, 0, 1]]\<rparr>"

definition example_u :: "real ndarray" where
  "example_u = \<lparr>shape0 = 3, shape1 = 2, rows = [[1, 0], [0, 1], [1/2, 1/2]]\<rparr>"

definition example_svds :: svds where
  "example_svds A k =
     Some (example_u, [3, 2], \<lparr>shape0 = 2, shape1 = 3, rows = [[1, 0, 0], [0, 1, 0]]\<rparr>)"

text \<open>A transport output on the example point clouds, the same output with a geometry
  that is no point cloud, and a plot object without lines whose two scatters are drawn.\<close>

definition example_transport :: transport where
  "example_transport =
     \<lparr>ot_geom = PointCloud example_x example_y, ot_a = [1/2, 1/4, 1/4], ot_b = [1/2, 1/2],
      ot_matrix = example_matrix, ot_linear_geom = None\<rparr>"

definition example_other_transport :: transport where
  "example_other_transport = example_transport\<lparr>ot_geom := OtherGeometry\<rparr>"

definition example_drawn_plot :: plot where
  "example_drawn_plot =
     \<lparr>plot_ax = \<lparr>artists = [PathCollection (slice_to example_x 0) [] ''o'' ''x'',
                              PathCollection (slice_to example_y 0) [] ''X'' ''y''],
                  legend_fontsize = Some 15\<rparr>,
      plot_show_lines = False, plot_lines = [],
      plot_points_x = Some 0, plot_points_y = Some 1, plot_threshold = -1, plot_scale = 200,
      plot_cmap = ''cool'', plot_scale_alpha_by_coupling = False, plot_alpha = 7/10\<rparr>"

text \<open>A transport output between point clouds on a line, and a plot object with a scale
  beyond the 32-bit integers.\<close>

definition example_line_transport :: transport where
  "example_line_transport =
     \<lparr>ot_geom = PointCloud \<lparr>shape0 = 3, shape1 = 1, rows = [[1], [3], [5]]\<rparr>
                           \<lparr>shape0 = 2, shape1 = 1, rows = [[10], [30]]\<rparr>,
      ot_a = [1/2, 1/4, 1/4], ot_b = [1/2, 1/2],
      ot_matrix = example_matrix, ot_linear_geom = None\<rparr>"

definition example_wide_scale_plot :: plot where
  "example_wide_scale_plot = (example_plot (-1) False (7/10))\<lparr>plot_scale := 2 ^ 31\<rparr>"


section \<open>The selected pairs\<close>

text \<open>The index arrays that \<open>jnp.where\<close> returns for \<open>matrix > threshold\<close> are the selected
  pairs of the specification: they are in row-major order, without repetition.\<close>

lemma wf_array_nth: "wf_array A \<Longrightarrow> i < shape0 A \<Longrightarrow> length (rows A ! i) = shape1 A"
  by (simp add: wf_array_def)

lemma greater_than_nth:
  assumes "wf_array M" "i < shape0 M" "j < shape1 M"
  shows "rows (greater_than M t) ! i ! j \<longleftrightarrow> t < rows M ! i ! j"
  using assms by (simp add: greater_than_def wf_array_def)

lemma hits_eq:
  assumes "wf_array M"
  shows "concat (map (\<lambda>i. map (\<lambda>j. (i, j))
            (filter (\<lambda>j. rows (greater_than M t) ! i ! j) [0..<shape1 (greater_than M t)]))
            [0..<shape0 (greater_than M t)]) = spec_selected_pairs M t"
proof -
  have sh: "shape0 (greater_than M t) = shape0 M" "shape1 (greater_than M t) = shape1 M"
    by (simp_all add: greater_than_def)
  have row: "map (\<lambda>j. (i, j)) (filter (\<lambda>j. rows (greater_than M t) ! i ! j) [0..<shape1 M])
      = filter (\<lambda>(i, j). t < rows M ! i ! j) (map (\<lambda>j. (i, j)) [0..<shape1 M])"
    if "i \<in> set [0..<shape0 M]" for i
  proof -
    have "filter (\<lambda>j. rows (greater_than M t) ! i ! j) [0..<shape1 M]
        = filter (\<lambda>j. t < rows M ! i ! j) [0..<shape1 M]"
      using that assms by (intro filter_cong) (simp_all add: greater_than_nth)
    then show ?thesis by (simp add: filter_map comp_def)
  qed
  show ?thesis
    unfolding sh spec_selected_pairs_def product_concat_map filter_concat map_map comp_def
    using row by (intro arg_cong[where f=concat] map_cong) simp_all
qed

lemma jnp_where_greater_than:
  "wf_array M \<Longrightarrow> jnp_where (greater_than M t)
     = (map fst (spec_selected_pairs M t), map snd (spec_selected_pairs M t))"
  unfolding jnp_where_def Let_def by (simp only: hits_eq)

lemma set_spec_selected_pairs:
  "set (spec_selected_pairs M t) = {(i, j). i < shape0 M \<and> j < shape1 M \<and> t < rows M ! i ! j}"
  by (auto simp: spec_selected_pairs_def)

lemma sorted_wrt_product:
  "sorted_wrt (<) xs \<Longrightarrow> sorted_wrt (<) ys \<Longrightarrow> sorted_wrt row_major_less (List.product xs ys)"
proof (induction xs)
  case Nil
  then show ?case by simp
next
  case (Cons x xs)
  have here: "sorted_wrt row_major_less (map (Pair x) ys)"
    using Cons.prems(2) by (simp add: sorted_wrt_map row_major_less_def)
  have rest: "sorted_wrt row_major_less (List.product xs ys)"
    using Cons by simp
  have cross: "row_major_less p q"
    if "p \<in> set (map (Pair x) ys)" "q \<in> set (List.product xs ys)" for p q
    using that Cons.prems(1) by (auto simp: row_major_less_def)
  show ?case
    using here rest cross by (simp add: sorted_wrt_append)
qed

lemma sorted_spec_selected_pairs: "sorted_wrt row_major_less (spec_selected_pairs M t)"
  unfolding spec_selected_pairs_def
  by (intro sorted_wrt_filter sorted_wrt_product) simp_all

lemma distinct_spec_selected_pairs: "distinct (spec_selected_pairs M t)"
  by (simp add: spec_selected_pairs_def distinct_product)

section \<open>The coupling-to-geometry mapper\<close>

text \<open>Reads within the bounds, and the reductions of an array that has an entry.\<close>

lemma jnp_get_in_range: "i < length xs \<Longrightarrow> jnp_get xs i = xs ! i"
proof -
  assume "i < length xs"
  then have "min i (length xs - 1) = i" by arith
  then show ?thesis by (simp add: jnp_get_def)
qed

lemma jnp_min_Min:
  assumes "c \<noteq> []"
  shows "jnp_min c = Inr (Min (set c))"
proof (cases c)
  case Nil
  with assms show ?thesis by simp
next
  case (Cons v vs)
  show ?thesis using Min.set_eq_fold[of v vs] by (simp add: Cons)
qed

lemma jnp_max_Max:
  assumes "c \<noteq> []"
  shows "jnp_max c = Inr (Max (set c))"
proof (cases c)
  case Nil
  with assms show ?thesis by simp
next
  case (Cons v vs)
  show ?thesis using Max.set_eq_fold[of v vs] by (simp add: Cons)
qed

lemma map2_same: "map2 f (map g ps) (map h ps) = map (\<lambda>p. f (g p) (h p)) ps"
  by (induction ps) simp_all

lemma index_pairs_selected:
  assumes "wf_array M"
  shows "index_pairs M (map fst (spec_selected_pairs M t), map snd (spec_selected_pairs M t))
           = spec_selected_values M t"
proof -
  have "jnp_get (jnp_get (rows M) (fst p)) (snd p) = (case p of (i, j) \<Rightarrow> rows M ! i ! j)"
    if "p \<in> set (spec_selected_pairs M t)" for p
  proof -
    obtain i j where p: "p = (i, j)" by (cases p)
    from that p have ij: "i < shape0 M" "j < shape1 M"
      by (simp_all add: set_spec_selected_pairs)
    with assms have "i < length (rows M)" "j < length (rows M ! i)"
      by (simp_all add: wf_array_def)
    then show ?thesis by (simp add: p jnp_get_in_range)
  qed
  then show ?thesis
    by (simp add: index_pairs_def spec_selected_values_def map2_same)
qed

text \<open>The result of \<open>_mapping\<close> in terms of the selected pairs and entries.\<close>

lemma Plot_mapping_unfold:
  assumes "wf_array M"
  shows "Plot_mapping self x y M =
     (let sel = spec_selected_pairs M (plot_threshold self);
          c = spec_selected_values M (plot_threshold self);
          xy = mapping_xy x y sel
      in if plot_scale_alpha_by_coupling self then
           (if c = [] then Inl ZeroSizeReduction
            else Inr (map (mapping_edge self M c xy (Max (set c) \<noteq> Min (set c))
                             (Min (set c)) (Max (set c))) [0..<length sel]))
         else Inr (map (mapping_edge self M c xy False 0 0) [0..<length sel]))"
proof -
  let ?sel = "spec_selected_pairs M (plot_threshold self)"
  have xy: "map2 (@) (take_rows x (map fst ?sel)) (take_rows y (map snd ?sel))
      = mapping_xy x y ?sel"
    by (simp add: take_rows_def mapping_xy_def map2_same)
  have len: "length (mapping_xy x y ?sel) = length ?sel"
    by (simp add: mapping_xy_def)
  show ?thesis
    unfolding Plot_mapping_def Let_def jnp_where_greater_than[OF assms] fst_conv snd_conv
      index_pairs_selected[OF assms] xy len
    by (cases "spec_selected_values M (plot_threshold self) = []")
       (simp_all add: jnp_min_Min jnp_max_Max)
qed

text \<open>The components of the edge that the loop appends at index \<open>i\<close>.\<close>

lemma length_spec_selected_values:
  "length (spec_selected_values M t) = length (spec_selected_pairs M t)"
  by (simp add: spec_selected_values_def)

lemma mapping_edge_alpha:
  assumes "i < length c"
  shows "edge_alpha (mapping_edge self M c xy sa mn mx i) =
     np_clip (if sa then plot_alpha self * ((c ! i - mn) / (mx - mn)) else plot_alpha self) 0 1"
  using assms by (simp add: mapping_edge_def edge_alpha_def Let_def jnp_get_in_range)

lemma mapping_edge_strength:
  assumes "i < length c"
  shows "edge_strength (mapping_edge self M c xy sa mn mx i) =
     real (max (shape0 M) (shape1 M)) * c ! i"
  using assms by (simp add: mapping_edge_def edge_strength_def Let_def jnp_get_in_range)

lemma map_alpha_edges:
  "map edge_alpha (map (mapping_edge self M c xy sa mn mx) [0..<length c]) =
     map (\<lambda>v. np_clip (if sa then plot_alpha self * ((v - mn) / (mx - mn)) else plot_alpha self) 0 1) c"
  by (rule nth_equalityI) (simp_all add: mapping_edge_alpha)

lemma map_strength_edges:
  "map edge_strength (map (mapping_edge self M c xy sa mn mx) [0..<length c]) =
     map (\<lambda>v. real (max (shape0 M) (shape1 M)) * v) c"
  by (rule nth_equalityI) (simp_all add: mapping_edge_strength)

lemma mapping_edge_ends:
  assumes "wf_array x" "shape1 x = 2" "wf_array y" "shape1 y = 2"
    and "i < length sel" "fst (sel ! i) < shape0 x" "snd (sel ! i) < shape0 y"
  shows "edge_start (mapping_edge self M c (mapping_xy x y sel) sa mn mx i) =
           [rows x ! fst (sel ! i) ! 0, rows y ! snd (sel ! i) ! 0]"
    and "edge_end (mapping_edge self M c (mapping_xy x y sel) sa mn mx i) =
           [rows x ! fst (sel ! i) ! 1, rows y ! snd (sel ! i) ! 1]"
proof -
  have lx: "length (rows x ! fst (sel ! i)) = 2" and ly: "length (rows y ! snd (sel ! i)) = 2"
    using assms by (simp_all add: wf_array_def)
  have ix: "fst (sel ! i) < length (rows x)" and iy: "snd (sel ! i) < length (rows y)"
    using assms by (simp_all add: wf_array_def)
  have row: "mapping_xy x y sel ! i = rows x ! fst (sel ! i) @ rows y ! snd (sel ! i)"
    using assms(5) ix iy by (simp add: mapping_xy_def jnp_get_in_range)
  show "edge_start (mapping_edge self M c (mapping_xy x y sel) sa mn mx i) =
           [rows x ! fst (sel ! i) ! 0, rows y ! snd (sel ! i) ! 0]"
    by (simp add: mapping_edge_def edge_start_def Let_def row jnp_get_def lx ly nth_append)
  show "edge_end (mapping_edge self M c (mapping_xy x y sel) sa mn mx i) =
           [rows x ! fst (sel ! i) ! 1, rows y ! snd (sel ! i) ! 1]"
    by (simp add: mapping_edge_def edge_end_def Let_def row jnp_get_def lx ly nth_append)
qed

lemma spec_selected_values_nth:
  "i < length (spec_selected_pairs M t) \<Longrightarrow>
     spec_selected_values M t ! i =
       rows M ! fst (spec_selected_pairs M t ! i) ! snd (spec_selected_pairs M t ! i)"
  by (simp add: spec_selected_values_def case_prod_beta)

lemma selected_pair_in_range:
  assumes "i < length (spec_selected_pairs M t)"
  shows "fst (spec_selected_pairs M t ! i) < shape0 M"
    and "snd (spec_selected_pairs M t ! i) < shape1 M"
proof -
  have "spec_selected_pairs M t ! i \<in> set (spec_selected_pairs M t)"
    using assms by simp
  then show "fst (spec_selected_pairs M t ! i) < shape0 M"
    and "snd (spec_selected_pairs M t ! i) < shape1 M"
    by (auto simp: set_spec_selected_pairs)
qed

lemma edges_geometry:
  assumes "wf_array x" "shape0 x = shape0 M" "shape1 x = 2"
    and "wf_array y" "shape0 y = shape1 M" "shape1 y = 2"
  shows "map (\<lambda>e. (edge_start e, edge_end e, edge_strength e))
           (map (mapping_edge self M (spec_selected_values M t)
                   (mapping_xy x y (spec_selected_pairs M t)) sa mn mx)
              [0..<length (spec_selected_pairs M t)])
         = map (segment_of_pair x y M) (spec_selected_pairs M t)"
proof (rule nth_equalityI)
  show "length (map (\<lambda>e. (edge_start e, edge_end e, edge_strength e))
           (map (mapping_edge self M (spec_selected_values M t)
                   (mapping_xy x y (spec_selected_pairs M t)) sa mn mx)
              [0..<length (spec_selected_pairs M t)]))
      = length (map (segment_of_pair x y M) (spec_selected_pairs M t))"
    by simp
next
  fix i
  assume "i < length (map (\<lambda>e. (edge_start e, edge_end e, edge_strength e))
           (map (mapping_edge self M (spec_selected_values M t)
                   (mapping_xy x y (spec_selected_pairs M t)) sa mn mx)
              [0..<length (spec_selected_pairs M t)]))"
  then have i: "i < length (spec_selected_pairs M t)" by simp
  have ic: "i < length (spec_selected_values M t)"
    using i by (simp add: length_spec_selected_values)
  have rx: "fst (spec_selected_pairs M t ! i) < shape0 x"
    and ry: "snd (spec_selected_pairs M t ! i) < shape0 y"
    using selected_pair_in_range[OF i] assms by simp_all
  show "map (\<lambda>e. (edge_start e, edge_end e, edge_strength e))
           (map (mapping_edge self M (spec_selected_values M t)
                   (mapping_xy x y (spec_selected_pairs M t)) sa mn mx)
              [0..<length (spec_selected_pairs M t)]) ! i
      = map (segment_of_pair x y M) (spec_selected_pairs M t) ! i"
    using i
    by (simp add: mapping_edge_ends[OF assms(1,3,4,6) i rx ry] mapping_edge_strength[OF ic]
          spec_selected_values_nth segment_of_pair_def)
qed

lemma mapping_returns:
  assumes "wf_array M"
    and "\<not> plot_scale_alpha_by_coupling self \<or> spec_selected_values M (plot_threshold self) \<noteq> []"
  shows "\<exists>sa mn mx. Plot_mapping self x y M =
           Inr (map (mapping_edge self M (spec_selected_values M (plot_threshold self))
                      (mapping_xy x y (spec_selected_pairs M (plot_threshold self))) sa mn mx)
                  [0..<length (spec_selected_pairs M (plot_threshold self))])"
  using assms(2) by (auto simp: Plot_mapping_unfold[OF assms(1)] Let_def)

lemma selected_values_nonempty:
  "spec_selected_values M t \<noteq> [] \<longleftrightarrow> (\<exists>i<shape0 M. \<exists>j<shape1 M. t < rows M ! i ! j)"
proof -
  have "spec_selected_values M t \<noteq> [] \<longleftrightarrow> set (spec_selected_pairs M t) \<noteq> {}"
    by (simp add: spec_selected_values_def)
  also have "\<dots> \<longleftrightarrow> (\<exists>i<shape0 M. \<exists>j<shape1 M. t < rows M ! i ! j)"
    unfolding set_spec_selected_pairs by auto
  finally show ?thesis .
qed

text \<open>
  Claim C1, as amended. For point batches \<open>x\<close> (\<open>n\<times>2\<close>) and \<open>y\<close> (\<open>m\<times>2\<close>), a coupling
  matrix \<open>M\<close> (\<open>n\<times>m\<close>) and the threshold \<open>t\<close> of the plot, whenever the opacity flag is
  unset or some entry exceeds \<open>t\<close>, \<open>_mapping\<close> returns one tuple for each index pair
  \<open>(i, j)\<close> with \<open>M[i,j] > t\<close>, in row-major order of \<open>(i, j)\<close>. The tuple's \<open>start\<close>
  is \<open>[x[i][0], y[j][0]]\<close>, its \<open>end\<close> is \<open>[x[i][1], y[j][1]]\<close> and its strength is
  \<open>max(n, m) * M[i,j]\<close>. An entry equal to \<open>t\<close> is not selected, and the number of
  tuples is the number of entries above \<open>t\<close>.
\<close>

theorem mapping_edges_row_major:
  assumes "wf_array M"
    and "wf_array x" "shape0 x = shape0 M" "shape1 x = 2"
    and "wf_array y" "shape0 y = shape1 M" "shape1 y = 2"
    and "\<not> plot_scale_alpha_by_coupling self \<or>
           (\<exists>i<shape0 M. \<exists>j<shape1 M. plot_threshold self < rows M ! i ! j)"
  shows "\<exists>es. Plot_mapping self x y M = Inr es
     \<and> map (\<lambda>e. (edge_start e, edge_end e, edge_strength e)) es
         = map (segment_of_pair x y M) (spec_selected_pairs M (plot_threshold self))
     \<and> set (spec_selected_pairs M (plot_threshold self))
         = {(i, j). i < shape0 M \<and> j < shape1 M \<and> plot_threshold self < rows M ! i ! j}
     \<and> sorted_wrt row_major_less (spec_selected_pairs M (plot_threshold self))
     \<and> length es
         = card {(i, j). i < shape0 M \<and> j < shape1 M \<and> plot_threshold self < rows M ! i ! j}"
proof -
  let ?t = "plot_threshold self"
  let ?sel = "spec_selected_pairs M ?t"
  have "\<not> plot_scale_alpha_by_coupling self \<or> spec_selected_values M ?t \<noteq> []"
    using assms(8) by (simp add: selected_values_nonempty)
  from mapping_returns[OF assms(1) this] obtain sa mn mx where
    ret: "Plot_mapping self x y M =
            Inr (map (mapping_edge self M (spec_selected_values M ?t)
                   (mapping_xy x y ?sel) sa mn mx) [0..<length ?sel])"
    by blast
  let ?es = "map (mapping_edge self M (spec_selected_values M ?t)
                   (mapping_xy x y ?sel) sa mn mx) [0..<length ?sel]"
  have geo: "map (\<lambda>e. (edge_start e, edge_end e, edge_strength e)) ?es
         = map (segment_of_pair x y M) ?sel"
    by (rule edges_geometry[OF assms(2-7)])
  have "length ?es = length ?sel" by simp
  also have "\<dots> = card (set ?sel)"
    by (simp add: distinct_card distinct_spec_selected_pairs)
  finally have len: "length ?es
      = card {(i, j). i < shape0 M \<and> j < shape1 M \<and> ?t < rows M ! i ! j}"
    by (simp only: set_spec_selected_pairs)
  show ?thesis
    using ret geo len set_spec_selected_pairs[of M ?t] sorted_spec_selected_pairs[of M ?t]
    by blast
qed

text \<open>The theorem of C1 at the example: threshold \<open>-1\<close> selects all six entries.\<close>

theorem mapping_edges_row_major_witness:
  "wf_array example_matrix \<and> wf_array example_x \<and> wf_array example_y
   \<and> (\<exists>es. Plot_mapping (example_plot (-1) True (7/10)) example_x example_y example_matrix = Inr es
     \<and> map (\<lambda>e. (edge_start e, edge_end e, edge_strength e)) es
         = map (segment_of_pair example_x example_y example_matrix)
             (spec_selected_pairs example_matrix (plot_threshold (example_plot (-1) True (7/10))))
     \<and> set (spec_selected_pairs example_matrix (plot_threshold (example_plot (-1) True (7/10))))
         = {(i, j). i < shape0 example_matrix \<and> j < shape1 example_matrix
              \<and> plot_threshold (example_plot (-1) True (7/10)) < rows example_matrix ! i ! j}
     \<and> sorted_wrt row_major_less
           (spec_selected_pairs example_matrix (plot_threshold (example_plot (-1) True (7/10))))
     \<and> length es
         = card {(i, j). i < shape0 example_matrix \<and> j < shape1 example_matrix
              \<and> plot_threshold (example_plot (-1) True (7/10)) < rows example_matrix ! i ! j})"
proof -
  have m: "wf_array example_matrix" by (simp add: wf_array_def example_matrix_def)
  have x: "wf_array example_x" "shape0 example_x = shape0 example_matrix" "shape1 example_x = 2"
    by (simp_all add: wf_array_def example_x_def example_matrix_def)
  have y: "wf_array example_y" "shape0 example_y = shape1 example_matrix" "shape1 example_y = 2"
    by (simp_all add: wf_array_def example_y_def example_matrix_def)
  have some: "\<not> plot_scale_alpha_by_coupling (example_plot (-1) True (7/10)) \<or>
      (\<exists>i<shape0 example_matrix. \<exists>j<shape1 example_matrix.
         plot_threshold (example_plot (-1) True (7/10)) < rows example_matrix ! i ! j)"
    by (auto simp: example_plot_def example_matrix_def intro!: exI[of _ 0])
  show ?thesis
    using m x(1) y(1) mapping_edges_row_major[OF m x y some] by blast
qed

text \<open>The six edges of the example, evaluated.\<close>

lemma example_six_edges:
  "Plot_mapping (example_plot (-1) True (7/10)) example_x example_y example_matrix =
     Inr [([1, 10], [2, 20], 27 / 10, 7 / 10), ([1, 30], [2, 40], 3 / 100, 0),
          ([3, 10], [4, 20], 3 / 50, 7 / 890), ([3, 30], [4, 40], 9 / 100, 7 / 445),
          ([5, 10], [6, 20], 3 / 100, 0), ([5, 30], [6, 40], 9 / 100, 7 / 445)]"
  by code_simp

text \<open>
  Claim C1 as it was stated has \<open>start = x[i]\<close> and \<open>end = y[j]\<close>. At the example with
  threshold \<open>1/2\<close> the only selected pair is \<open>(0, 0)\<close>; the code returns
  \<open>start = [1, 10]\<close> and \<open>end = [2, 20]\<close>, while \<open>x[0] = [1, 2]\<close> and \<open>y[0] = [10, 20]\<close>.
\<close>

theorem mapping_start_is_not_source_point:
  "Plot_mapping (example_plot (1/2) False (7/10)) example_x example_y example_matrix
     = Inr [([1, 10], [2, 20], 27 / 10, 7 / 10)]
   \<and> rows example_x ! 0 = [1, 2] \<and> rows example_y ! 0 = [10, 20]
   \<and> Plot_mapping (example_plot (1/2) False (7/10)) example_x example_y example_matrix
     \<noteq> Inr [(rows example_x ! 0, rows example_y ! 0,
               real (max (shape0 example_matrix) (shape1 example_matrix))
                 * rows example_matrix ! 0 ! 0, 7 / 10)]"
  by code_simp

text \<open>When nothing is selected, the result depends on the opacity flag: the reduction of
  the empty array of selected entries raises.\<close>

lemma mapping_nothing_selected:
  assumes "wf_array M"
    and "\<not> (\<exists>i<shape0 M. \<exists>j<shape1 M. plot_threshold self < rows M ! i ! j)"
  shows "Plot_mapping self x y M =
           (if plot_scale_alpha_by_coupling self then Inl ZeroSizeReduction else Inr [])"
proof -
  have c: "spec_selected_values M (plot_threshold self) = []"
    using assms(2) selected_values_nonempty[of M "plot_threshold self"] by blast
  then have "spec_selected_pairs M (plot_threshold self) = []"
    by (simp add: spec_selected_values_def)
  with c show ?thesis
    by (simp add: Plot_mapping_unfold[OF assms(1)] Let_def)
qed

text \<open>
  Claim C2: when no entry of the matrix exceeds the threshold, \<open>_mapping\<close> returns the
  empty sequence and raises nothing, whatever the opacity flag. The code does so with
  the flag unset. With the flag set it calls \<open>jnp.min\<close> on the empty array of selected
  entries, which raises: at the example with threshold \<open>1\<close> (every entry is below) the
  result is the \<open>ValueError\<close> of the reduction.
\<close>

theorem mapping_raises_on_empty_selection:
  "Plot_mapping (example_plot 1 True (7/10)) example_x example_y example_matrix
     = Inl ZeroSizeReduction
   \<and> Plot_mapping (example_plot 1 False (7/10)) example_x example_y example_matrix = Inr []"
  by code_simp

subsection \<open>Opacity\<close>

text \<open>The test \<open>max_matrix != min_matrix\<close> says that the selected entries are not all equal, and
  the normalised entry then lies in \<open>[0, 1]\<close>.\<close>

lemma max_eq_min_iff_all_equal:
  assumes "c \<noteq> []"
  shows "Max (set c) = Min (set c) \<longleftrightarrow> all_equal c"
proof
  assume eq: "Max (set c) = Min (set c)"
  have "v = Min (set c)" if "v \<in> set c" for v
  proof -
    have "Min (set c) \<le> v" "v \<le> Max (set c)" using that by simp_all
    with eq show ?thesis by simp
  qed
  then have "\<forall>v \<in> set c. v = Min (set c)" by blast
  then show "all_equal c" unfolding all_equal_def by metis
next
  assume ae: "all_equal c"
  have "Max (set c) \<in> set c" "Min (set c) \<in> set c"
    using assms by simp_all
  with ae show "Max (set c) = Min (set c)" by (simp add: all_equal_def)
qed

lemma normalized_in_unit_interval:
  fixes c :: "real list"
  assumes "v \<in> set c" "Max (set c) \<noteq> Min (set c)"
  shows "0 \<le> (v - Min (set c)) / (Max (set c) - Min (set c))"
    and "(v - Min (set c)) / (Max (set c) - Min (set c)) \<le> 1"
proof -
  have lo: "Min (set c) \<le> v" and hi: "v \<le> Max (set c)" using assms(1) by simp_all
  then have "Min (set c) \<le> Max (set c)" by linarith
  with assms(2) have pos: "0 < Max (set c) - Min (set c)" by simp
  show "0 \<le> (v - Min (set c)) / (Max (set c) - Min (set c))"
    using lo pos by simp
  show "(v - Min (set c)) / (Max (set c) - Min (set c)) \<le> 1"
    using hi pos by simp
qed

lemma np_clip_unit: "0 \<le> v \<Longrightarrow> v \<le> 1 \<Longrightarrow> np_clip v 0 1 = v"
  by (simp add: np_clip_def)

lemma scaled_alpha_in_unit_interval:
  assumes "0 \<le> base" "base \<le> 1" "0 \<le> r" "r \<le> (1::real)"
  shows "0 \<le> base * r" and "base * r \<le> 1"
proof -
  show "0 \<le> base * r" using assms by simp
  have "base * r \<le> 1 * 1" using assms by (intro mult_mono) simp_all
  then show "base * r \<le> 1" by simp
qed

text \<open>The alphas that \<open>_mapping\<close> emits, for any base alpha: the scaled or the plain base
  alpha, clamped.\<close>

lemma mapping_alphas_any_base:
  assumes "wf_array M" and "Plot_mapping self x y M = Inr es"
  shows "map edge_alpha es =
     map (\<lambda>v. np_clip
                (if plot_scale_alpha_by_coupling self
                    \<and> \<not> all_equal (spec_selected_values M (plot_threshold self))
                 then plot_alpha self *
                      ((v - Min (set (spec_selected_values M (plot_threshold self))))
                       / (Max (set (spec_selected_values M (plot_threshold self)))
                          - Min (set (spec_selected_values M (plot_threshold self)))))
                 else plot_alpha self) 0 1)
       (spec_selected_values M (plot_threshold self))"
proof -
  let ?c = "spec_selected_values M (plot_threshold self)"
  let ?sel = "spec_selected_pairs M (plot_threshold self)"
  have len: "length ?sel = length ?c" by (simp add: length_spec_selected_values)
  show ?thesis
  proof (cases "plot_scale_alpha_by_coupling self")
    case False
    with assms(2) have "es = map (mapping_edge self M ?c (mapping_xy x y ?sel) False 0 0)
        [0..<length ?sel]"
      by (simp add: Plot_mapping_unfold[OF assms(1)] Let_def)
    with False show ?thesis unfolding len by (simp only: map_alpha_edges) simp
  next
    case True
    with assms(2) have ne: "?c \<noteq> []"
      by (auto simp: Plot_mapping_unfold[OF assms(1)] Let_def)
    with True assms(2) have "es = map (mapping_edge self M ?c (mapping_xy x y ?sel)
        (Max (set ?c) \<noteq> Min (set ?c)) (Min (set ?c)) (Max (set ?c))) [0..<length ?sel]"
      by (simp add: Plot_mapping_unfold[OF assms(1)] Let_def)
    with True max_eq_min_iff_all_equal[OF ne] show ?thesis
      unfolding len by (simp only: map_alpha_edges) simp
  qed
qed

text \<open>
  Claim C5: for a base alpha in \<open>[0, 1]\<close>, when the opacity flag is set and the selected
  entries are not all equal, the alpha of each edge is the base alpha times the entry's
  linear normalisation \<open>(v - min) / (max - min)\<close>, where \<open>min\<close> and \<open>max\<close> are those of
  the selected entries, and this normalisation lies in \<open>[0, 1]\<close>; when the flag is unset
  or all selected entries are equal, each edge has the base alpha. The edges are those
  that \<open>_mapping\<close> returns, which it does when the flag is unset or an entry is selected.
\<close>

theorem mapping_alpha_scaling:
  assumes "wf_array M"
    and "0 \<le> plot_alpha self" "plot_alpha self \<le> 1"
    and "\<not> plot_scale_alpha_by_coupling self \<or>
           (\<exists>i<shape0 M. \<exists>j<shape1 M. plot_threshold self < rows M ! i ! j)"
  shows "\<exists>es. Plot_mapping self x y M = Inr es
     \<and> map edge_alpha es =
         (if plot_scale_alpha_by_coupling self
             \<and> \<not> all_equal (spec_selected_values M (plot_threshold self))
          then map (\<lambda>v. plot_alpha self *
                      ((v - Min (set (spec_selected_values M (plot_threshold self))))
                       / (Max (set (spec_selected_values M (plot_threshold self)))
                          - Min (set (spec_selected_values M (plot_threshold self))))))
                 (spec_selected_values M (plot_threshold self))
          else map (\<lambda>v. plot_alpha self) (spec_selected_values M (plot_threshold self)))
     \<and> (\<not> all_equal (spec_selected_values M (plot_threshold self)) \<longrightarrow>
          (\<forall>v \<in> set (spec_selected_values M (plot_threshold self)).
             0 \<le> (v - Min (set (spec_selected_values M (plot_threshold self))))
                    / (Max (set (spec_selected_values M (plot_threshold self)))
                       - Min (set (spec_selected_values M (plot_threshold self))))
             \<and> (v - Min (set (spec_selected_values M (plot_threshold self))))
                    / (Max (set (spec_selected_values M (plot_threshold self)))
                       - Min (set (spec_selected_values M (plot_threshold self)))) \<le> 1))"
proof -
  let ?c = "spec_selected_values M (plot_threshold self)"
  let ?sel = "spec_selected_pairs M (plot_threshold self)"
  let ?xy = "mapping_xy x y ?sel"
  let ?mn = "Min (set ?c)" and ?mx = "Max (set ?c)"
  have len: "length ?sel = length ?c" by (simp add: length_spec_selected_values)
  have bounds: "\<not> all_equal ?c \<longrightarrow>
      (\<forall>v \<in> set ?c. 0 \<le> (v - ?mn) / (?mx - ?mn) \<and> (v - ?mn) / (?mx - ?mn) \<le> 1)"
  proof (intro impI ballI)
    fix v assume ne: "\<not> all_equal ?c" and v: "v \<in> set ?c"
    from v have "?c \<noteq> []" by auto
    with ne have "?mx \<noteq> ?mn" by (simp add: max_eq_min_iff_all_equal)
    with v show "0 \<le> (v - ?mn) / (?mx - ?mn) \<and> (v - ?mn) / (?mx - ?mn) \<le> 1"
      by (simp add: normalized_in_unit_interval)
  qed
  have plain: "map edge_alpha (map (mapping_edge self M ?c ?xy False mn mx) [0..<length ?sel])
      = map (\<lambda>v. plot_alpha self) ?c" for mn mx
    unfolding len map_alpha_edges using assms(2,3) by (simp add: np_clip_unit)
  show ?thesis
  proof (cases "plot_scale_alpha_by_coupling self")
    case False
    then have "Plot_mapping self x y M =
        Inr (map (mapping_edge self M ?c ?xy False 0 0) [0..<length ?sel])"
      by (simp add: Plot_mapping_unfold[OF assms(1)] Let_def)
    with False plain[of 0 0] bounds show ?thesis by simp
  next
    case True
    with assms(4) have ne: "?c \<noteq> []" by (simp add: selected_values_nonempty)
    from True ne have ret: "Plot_mapping self x y M =
        Inr (map (mapping_edge self M ?c ?xy (?mx \<noteq> ?mn) ?mn ?mx) [0..<length ?sel])"
      by (simp add: Plot_mapping_unfold[OF assms(1)] Let_def)
    show ?thesis
    proof (cases "all_equal ?c")
      case ae: True
      with ne have "\<not> (?mx \<noteq> ?mn)" by (simp add: max_eq_min_iff_all_equal)
      with ret have "Plot_mapping self x y M =
        Inr (map (mapping_edge self M ?c ?xy False ?mn ?mx) [0..<length ?sel])"
        by simp
      with ae plain[of ?mn ?mx] bounds show ?thesis by simp
    next
      case nae: False
      with ne have diff: "?mx \<noteq> ?mn" by (simp add: max_eq_min_iff_all_equal)
      have "map edge_alpha (map (mapping_edge self M ?c ?xy True ?mn ?mx) [0..<length ?sel])
          = map (\<lambda>v. plot_alpha self * ((v - ?mn) / (?mx - ?mn))) ?c"
        unfolding len map_alpha_edges
      proof (rule map_cong[OF refl])
        fix v assume v: "v \<in> set ?c"
        have "0 \<le> plot_alpha self * ((v - ?mn) / (?mx - ?mn))"
          and "plot_alpha self * ((v - ?mn) / (?mx - ?mn)) \<le> 1"
          using scaled_alpha_in_unit_interval[OF assms(2,3)
                  normalized_in_unit_interval[OF v diff]] by simp_all
        then show "np_clip (if True then plot_alpha self * ((v - ?mn) / (?mx - ?mn))
                            else plot_alpha self) 0 1
            = plot_alpha self * ((v - ?mn) / (?mx - ?mn))"
          by (simp add: np_clip_unit)
      qed
      with ret diff True nae bounds show ?thesis by simp
    qed
  qed
qed

text \<open>The theorem of C5 at the example with threshold \<open>1/100\<close>: four entries are selected, their
  minimum is \<open>2/100\<close> (that of the whole matrix is \<open>1/100\<close>) and their maximum \<open>9/10\<close>.\<close>

theorem mapping_alpha_scaling_witness:
  "wf_array example_matrix
   \<and> 0 \<le> plot_alpha (example_plot (1/100) True (7/10))
   \<and> plot_alpha (example_plot (1/100) True (7/10)) \<le> 1
   \<and> (\<exists>es. Plot_mapping (example_plot (1/100) True (7/10)) example_x example_y example_matrix
            = Inr es
        \<and> map edge_alpha es =
         (if plot_scale_alpha_by_coupling (example_plot (1/100) True (7/10))
             \<and> \<not> all_equal (spec_selected_values example_matrix
                     (plot_threshold (example_plot (1/100) True (7/10))))
          then map (\<lambda>v. plot_alpha (example_plot (1/100) True (7/10)) *
                      ((v - Min (set (spec_selected_values example_matrix
                                        (plot_threshold (example_plot (1/100) True (7/10))))))
                       / (Max (set (spec_selected_values example_matrix
                                      (plot_threshold (example_plot (1/100) True (7/10)))))
                          - Min (set (spec_selected_values example_matrix
                                        (plot_threshold (example_plot (1/100) True (7/10))))))))
                 (spec_selected_values example_matrix
                    (plot_threshold (example_plot (1/100) True (7/10))))
          else map (\<lambda>v. plot_alpha (example_plot (1/100) True (7/10)))
                 (spec_selected_values example_matrix
                    (plot_threshold (example_plot (1/100) True (7/10))))))"
proof -
  have m: "wf_array example_matrix" by (simp add: wf_array_def example_matrix_def)
  have lo: "0 \<le> plot_alpha (example_plot (1/100) True (7/10))"
    and hi: "plot_alpha (example_plot (1/100) True (7/10)) \<le> 1"
    by (simp_all add: example_plot_def)
  have some: "\<not> plot_scale_alpha_by_coupling (example_plot (1/100) True (7/10)) \<or>
      (\<exists>i<shape0 example_matrix. \<exists>j<shape1 example_matrix.
         plot_threshold (example_plot (1/100) True (7/10)) < rows example_matrix ! i ! j)"
    by (auto simp: example_plot_def example_matrix_def intro!: exI[of _ 0])
  show ?thesis
    using m lo hi
      mapping_alpha_scaling[OF m lo hi some, of example_x example_y]
    by blast
qed

text \<open>The four alphas of this example, evaluated.\<close>

lemma example_scaled_alphas:
  "map edge_alpha (case Plot_mapping (example_plot (1/100) True (7/10)) example_x example_y example_matrix of Inr es \<Rightarrow> es | Inl _ \<Rightarrow> [])
     = [7/10, 0, 7/880, 7/880]"
  by code_simp

section \<open>The dimensionality reducer: identity and type error\<close>

text \<open>
  Claim C3: for point batches whose embedding dimension is at most 2, \<open>bidimensional\<close>
  returns \<open>x\<close> and \<open>y\<close> unchanged.
\<close>

theorem bidimensional_identity:
  assumes "shape1 x \<le> 2"
  shows "bidimensional svds x y = Inr (x, y)"
  using assms by (simp add: bidimensional_def)

text \<open>The theorem of C3 at the two-dimensional example.\<close>

theorem bidimensional_identity_witness:
  "shape1 example_x \<le> 2
   \<and> bidimensional example_svds example_x example_y = Inr (example_x, example_y)"
proof -
  have d: "shape1 example_x \<le> 2" by (simp add: example_x_def)
  show ?thesis using d bidimensional_identity[OF d] by simp
qed

text \<open>With more than two dimensions \<open>bidimensional\<close> ends with the type error of \<open>svds\<close>,
  whatever the routine would compute.\<close>

lemma bidimensional_raises:
  "2 < shape1 x \<Longrightarrow> bidimensional svds x y = Inl SvdsTypeError"
  by (simp add: bidimensional_def scipy_svds_def)

text \<open>
  Claim C4: for point batches \<open>x\<close> (\<open>n\<times>d\<close>) and \<open>y\<close> (\<open>m\<times>d\<close>) with \<open>d > 2\<close>,
  \<open>bidimensional\<close> concatenates them along the point axis, computes the truncated
  singular value decomposition with \<open>k = 2\<close> of the concatenation, forms the projection
  \<open>U \<cdot> diag(S)\<close> and returns its first \<open>n\<close> rows and its other \<open>m\<close> rows. The code does
  not get there: it hands the array of JAX that \<open>jnp.concatenate\<close> returns to \<open>svds\<close>,
  which raises \<open>TypeError\<close> for it. At two batches of three-dimensional points with
  three points in all, where \<open>k = 2\<close> is a rank that \<open>svds\<close> takes, and with a stand-in
  for the routine that would return a triple, the call ends with this error.
\<close>

theorem bidimensional_type_error:
  "shape1 example_x3 = 3 \<and> shape1 example_y3 = 3
   \<and> bidimensional example_svds example_x3 example_y3 = Inl SvdsTypeError"
  by (simp add: bidimensional_def scipy_svds_def example_x3_def example_y3_def)

section \<open>The opacity in floating-point arithmetic: nan\<close>


text \<open>The second model against the first. The selected entries are the entries above the
  threshold, read row by row; reductions and comparisons of finite values are those of
  the reals.\<close>

lemma selected_values_by_rows:
  assumes "wf_array M"
  shows "spec_selected_values M t = concat (map (filter (\<lambda>v. t < v)) (rows M))"
proof -
  have row: "map (\<lambda>(i, j). rows M ! i ! j)
               (filter (\<lambda>(i, j). t < rows M ! i ! j) (map (Pair i) [0..<shape1 M]))
      = filter (\<lambda>v. t < v) (rows M ! i)" if "i < shape0 M" for i
  proof -
    have len: "length (rows M ! i) = shape1 M"
      using that assms by (simp add: wf_array_def)
    have "map (\<lambda>(i, j). rows M ! i ! j)
               (filter (\<lambda>(i, j). t < rows M ! i ! j) (map (Pair i) [0..<shape1 M]))
        = filter (\<lambda>v. t < v) (map (\<lambda>j. rows M ! i ! j) [0..<shape1 M])"
      by (simp add: filter_map comp_def)
    also have "map (\<lambda>j. rows M ! i ! j) [0..<shape1 M] = rows M ! i"
      unfolding len[symmetric] by (rule map_nth)
    finally show ?thesis .
  qed
  have "spec_selected_values M t
      = concat (map (\<lambda>i. map (\<lambda>(i, j). rows M ! i ! j)
               (filter (\<lambda>(i, j). t < rows M ! i ! j) (map (Pair i) [0..<shape1 M])))
          [0..<shape0 M])"
    by (simp add: spec_selected_values_def spec_selected_pairs_def product_concat_map
          filter_concat map_concat comp_def)
  also have "\<dots> = concat (map (\<lambda>i. filter (\<lambda>v. t < v) (rows M ! i)) [0..<shape0 M])"
    using row by (intro arg_cong[where f=concat] map_cong) simp_all
  also have "map (\<lambda>i. filter (\<lambda>v. t < v) (rows M ! i)) [0..<shape0 M]
      = map (filter (\<lambda>v. t < v)) (map (\<lambda>i. rows M ! i) [0..<length (rows M)])"
    using assms by (simp add: wf_array_def comp_def)
  also have "map (\<lambda>i. rows M ! i) [0..<length (rows M)] = rows M"
    by (rule map_nth)
  finally show ?thesis .
qed

lemma filter_less_Finite:
  "filter (\<lambda>v. ieee_less (Finite t) v) (map Finite r) = map Finite (filter (\<lambda>v. t < v) r)"
  by (induction r) simp_all

lemma selected_ieee_embed:
  assumes "wf_array M"
  shows "selected_ieee (embed_finite M) (Finite t) = map Finite (spec_selected_values M t)"
  by (simp add: selected_ieee_def embed_finite_def selected_values_by_rows[OF assms]
        map_concat comp_def filter_less_Finite)

lemma fold_ieee_min_Finite: "fold ieee_min (map Finite vs) (Finite v) = Finite (fold min vs v)"
  by (induction vs arbitrary: v) (simp_all add: ieee_min_def min_def)

lemma fold_ieee_max_Finite: "fold ieee_max (map Finite vs) (Finite v) = Finite (fold max vs v)"
  by (induction vs arbitrary: v) (simp_all add: ieee_max_def max_def)

lemma overflow_Finite: "\<bar>r\<bar> \<le> largest \<Longrightarrow> overflow largest r = Finite r"
  by (auto simp: overflow_def)

lemma one_le_float32_max: "1 \<le> float32_max"
  by (simp add: float32_max_def)

lemma ieee_clip01_Finite: "ieee_clip01 (Finite v) = Finite (np_clip v 0 1)"
  by (simp add: np_clip_def)

text \<open>One scaled alpha, where nothing overflows.\<close>

lemma scaled_alpha_ieee:
  fixes c :: "real list"
  assumes v: "v \<in> set c" and diff: "Max (set c) \<noteq> Min (set c)"
    and nov: "Max (set c) - Min (set c) \<le> float32_max"
    and al: "\<bar>al\<bar> \<le> float64_max"
  shows "ieee_clip01 (ieee_mul float64_max (Finite al)
            (ieee_div float32_max
               (ieee_sub float32_max (Finite v) (Finite (Min (set c))))
               (ieee_sub float32_max (Finite (Max (set c))) (Finite (Min (set c))))))
         = Finite (np_clip (al * ((v - Min (set c)) / (Max (set c) - Min (set c)))) 0 1)"
proof -
  let ?mn = "Min (set c)" and ?mx = "Max (set c)"
  have lo: "?mn \<le> v" and hi: "v \<le> ?mx" using v by simp_all
  have pos: "0 < ?mx - ?mn" using lo hi diff by linarith
  have d1: "\<bar>v - ?mn\<bar> \<le> float32_max" using lo hi nov by linarith
  have d2: "\<bar>?mx - ?mn\<bar> \<le> float32_max" using pos nov by linarith
  have q: "0 \<le> (v - ?mn) / (?mx - ?mn)" "(v - ?mn) / (?mx - ?mn) \<le> 1"
    using normalized_in_unit_interval[OF v diff] by simp_all
  have d3: "\<bar>(v - ?mn) / (?mx - ?mn)\<bar> \<le> float32_max"
    using q one_le_float32_max by linarith
  have "\<bar>al * ((v - ?mn) / (?mx - ?mn))\<bar> = \<bar>al\<bar> * ((v - ?mn) / (?mx - ?mn))"
    by (simp only: abs_mult abs_of_nonneg[OF q(1)])
  also have "\<dots> \<le> \<bar>al\<bar> * 1"
    using q(2) by (intro mult_left_mono) simp_all
  finally have d4: "\<bar>al * ((v - ?mn) / (?mx - ?mn))\<bar> \<le> float64_max"
    using al by simp
  from pos have nz: "?mx - ?mn \<noteq> 0" by simp
  show ?thesis
    by (simp only: ieee_sub.simps ieee_div.simps ieee_mul.simps overflow_Finite[OF d1]
          overflow_Finite[OF d2] overflow_Finite[OF d3] overflow_Finite[OF d4] nz if_False
          ieee_clip01_Finite)
qed

text \<open>
  Where no difference of two selected entries and no product with the base alpha is
  beyond the largest float, the floating-point alphas are the alphas of the model over
  the reals.
\<close>

lemma mapping_alphas_ieee_exact:
  assumes wf: "wf_array M" and ret: "Plot_mapping self x y M = Inr es"
    and nov: "spec_selected_values M (plot_threshold self) \<noteq> [] \<longrightarrow>
        Max (set (spec_selected_values M (plot_threshold self)))
          - Min (set (spec_selected_values M (plot_threshold self))) \<le> float32_max"
    and al: "\<bar>plot_alpha self\<bar> \<le> float64_max"
  shows "mapping_alphas_ieee (Finite (plot_threshold self)) (plot_scale_alpha_by_coupling self)
           (Finite (plot_alpha self)) (embed_finite M)
         = Inr (map (\<lambda>e. Finite (edge_alpha e)) es)"
proof -
  let ?c = "spec_selected_values M (plot_threshold self)"
  have alphas: "map edge_alpha es =
     map (\<lambda>v. np_clip
                (if plot_scale_alpha_by_coupling self \<and> \<not> all_equal ?c
                 then plot_alpha self * ((v - Min (set ?c)) / (Max (set ?c) - Min (set ?c)))
                 else plot_alpha self) 0 1) ?c"
    by (rule mapping_alphas_any_base[OF wf ret])
  have target: "map (\<lambda>e. Finite (edge_alpha e)) es = map Finite (map edge_alpha es)"
    by simp
  show ?thesis
  proof (cases "plot_scale_alpha_by_coupling self")
    case False
    then show ?thesis
      unfolding target alphas
      by (simp add: mapping_alphas_ieee_def selected_ieee_embed[OF wf] np_clip_def comp_def)
  next
    case flag: True
    with ret have ne: "?c \<noteq> []"
      by (auto simp: Plot_mapping_unfold[OF wf] Let_def)
    then obtain v vs where c: "?c = v # vs" by (cases ?c) auto
    have mn: "fold min vs v = Min (set ?c)" and mx: "fold max vs v = Max (set ?c)"
      using Min.set_eq_fold[of v vs] Max.set_eq_fold[of v vs] by (simp_all add: c)
    have fmn: "fold ieee_min (map Finite vs) (Finite v) = Finite (Min (set ?c))"
      and fmx: "fold ieee_max (map Finite vs) (Finite v) = Finite (Max (set ?c))"
      by (simp_all only: fold_ieee_min_Finite fold_ieee_max_Finite mn mx)
    have sel: "selected_ieee (embed_finite M) (Finite (plot_threshold self))
        = Finite v # map Finite vs"
      by (simp add: selected_ieee_embed[OF wf] c)
    show ?thesis
    proof (cases "Max (set ?c) = Min (set ?c)")
      case eq: True
      then have ae: "all_equal ?c" using max_eq_min_iff_all_equal[OF ne] by simp
      have step1: "mapping_alphas_ieee (Finite (plot_threshold self)) True
           (Finite (plot_alpha self)) (embed_finite M)
          = Inr (map (\<lambda>ci. ieee_clip01 (Finite (plot_alpha self))) (Finite v # map Finite vs))"
        unfolding mapping_alphas_ieee_def Let_def sel
        by (simp only: list.case fmn fmx eq ieee_neq_def if_True if_False ieee.distinct
              simp_thms)
      have step2: "map (\<lambda>ci. ieee_clip01 (Finite (plot_alpha self))) (Finite v # map Finite vs)
          = map Finite (map (\<lambda>w. np_clip (plot_alpha self) 0 1) ?c)"
        by (simp add: c np_clip_def comp_def)
      have "mapping_alphas_ieee (Finite (plot_threshold self))
           (plot_scale_alpha_by_coupling self) (Finite (plot_alpha self)) (embed_finite M)
          = Inr (map Finite (map (\<lambda>w. np_clip (plot_alpha self) 0 1) ?c))"
        using flag by (simp only: step1 step2)
      moreover have "map (\<lambda>e. Finite (edge_alpha e)) es
          = map Finite (map (\<lambda>w. np_clip (plot_alpha self) 0 1) ?c)"
        using flag ae by (simp only: target alphas simp_thms if_False)
      ultimately show ?thesis by (simp only:)
    next
      case diff: False
      then have nae: "\<not> all_equal ?c" using max_eq_min_iff_all_equal[OF ne] by simp
      from nov ne have nov': "Max (set ?c) - Min (set ?c) \<le> float32_max" by simp
      have step1: "mapping_alphas_ieee (Finite (plot_threshold self)) True
           (Finite (plot_alpha self)) (embed_finite M)
          = Inr (map (\<lambda>ci. ieee_clip01
                                 (ieee_mul float64_max (Finite (plot_alpha self))
                                    (ieee_div float32_max
                                       (ieee_sub float32_max ci (Finite (Min (set ?c))))
                                       (ieee_sub float32_max (Finite (Max (set ?c)))
                                          (Finite (Min (set ?c)))))))
                   (Finite v # map Finite vs))"
        unfolding mapping_alphas_ieee_def Let_def sel
        using diff
        by (simp only: list.case fmn fmx ieee_neq_def if_True if_False ieee.distinct
              ieee.inject simp_thms)
      have step2: "Finite v # map Finite vs = map Finite ?c" by (simp add: c)
      have step3: "map (\<lambda>ci. ieee_clip01
                                 (ieee_mul float64_max (Finite (plot_alpha self))
                                    (ieee_div float32_max
                                       (ieee_sub float32_max ci (Finite (Min (set ?c))))
                                       (ieee_sub float32_max (Finite (Max (set ?c)))
                                          (Finite (Min (set ?c)))))))
                   (map Finite ?c)
          = map Finite (map (\<lambda>w. np_clip (plot_alpha self *
                 ((w - Min (set ?c)) / (Max (set ?c) - Min (set ?c)))) 0 1) ?c)"
        unfolding map_map comp_def
        by (rule map_cong[OF refl]) (rule scaled_alpha_ieee[OF _ diff nov' al])
      have "mapping_alphas_ieee (Finite (plot_threshold self))
           (plot_scale_alpha_by_coupling self) (Finite (plot_alpha self)) (embed_finite M)
          = Inr (map Finite (map (\<lambda>w. np_clip (plot_alpha self *
                 ((w - Min (set ?c)) / (Max (set ?c) - Min (set ?c)))) 0 1) ?c))"
        using flag by (simp only: step1 step2 step3)
      moreover have "map (\<lambda>e. Finite (edge_alpha e)) es
          = map Finite (map (\<lambda>w. np_clip (plot_alpha self *
                 ((w - Min (set ?c)) / (Max (set ?c) - Min (set ?c)))) 0 1) ?c)"
        using flag nae by (simp only: target alphas simp_thms if_True)
      ultimately show ?thesis by (simp only:)
    qed
  qed
qed

text \<open>The clamp leaves a number of \<open>[0, 1]\<close> or \<open>nan\<close>.\<close>

lemma ieee_clip01_range: "ieee_clip01 v = NaN \<or> (\<exists>r. ieee_clip01 v = Finite r \<and> 0 \<le> r \<and> r \<le> 1)"
  by (cases v) simp_all

lemma mapping_alphas_ieee_range:
  assumes "mapping_alphas_ieee t flag al M = Inr alphas" and "v \<in> set alphas"
  shows "v = NaN \<or> (\<exists>r. v = Finite r \<and> 0 \<le> r \<and> r \<le> 1)"
proof -
  from assms(1) have "\<forall>u \<in> set alphas. \<exists>w. u = ieee_clip01 w"
    unfolding mapping_alphas_ieee_def Let_def
    by (auto split: if_splits list.splits)
  with assms(2) obtain w where "v = ieee_clip01 w" by auto
  then show ?thesis using ieee_clip01_range[of w] by simp
qed

section \<open>Point sizes\<close>

text \<open>
  Claim C7 as it was stated holds for every scale. With the scale \<open>2^31\<close>, which is
  no 32-bit integer, \<open>a * self._scale\<close> in \<open>_scatter\<close> and \<open>jnp.min(a) / scale\<close> in
  \<open>_barycenters\<close> raise \<open>OverflowError\<close>, and no size is computed.
\<close>

theorem point_size_overflow:
  "plot_scale example_wide_scale_plot = 2 ^ 31
   \<and> Plot_scatter example_svds example_wide_scale_plot example_transport = Inl OverflowError
   \<and> barycenters new_axes example_y [1/2, 1/4, 1/4] [1/2, 1/2] example_matrix (2 ^ 31)
       = Inl OverflowError"
  by (simp add: Plot_scatter_def bidimensional_def example_transport_def example_x_def
        example_wide_scale_plot_def example_plot_def fits_int32_def barycenters_def)

lemma size_over_nonzero: "scale \<noteq> 0 \<Longrightarrow> size_over w m scale = w / (m / real_of_int scale)"
  by (simp add: size_over_def)

text \<open>
  Claim C7, as amended. For a scale \<open>s\<close> in the range of the 32-bit integers and a
  weight vector \<open>w\<close> of length \<open>n\<close>, \<open>_scatter\<close> computes the sizes \<open>w * s * n\<close> (for a
  point cloud that \<open>bidimensional\<close> accepts), and \<open>_barycenters\<close> draws with the sizes
  \<open>w / (min(w) / s)\<close> when \<open>s\<close> is not zero, the weight vectors have an entry, \<open>a\<close> has
  no entry zero and the minimum of \<open>b\<close> is not zero, and the shapes fit: \<open>y\<close> is \<open>m\<times>2\<close>,
  the matrix \<open>n\<times>m\<close>, \<open>a\<close> of length \<open>n\<close> and \<open>b\<close> of length \<open>m\<close>.
\<close>

theorem point_size_scaling:
  assumes "ot_geom ot = PointCloud x y" and "bidimensional svds x y = Inr (x', y')"
    and "fits_int32 (plot_scale self)"
    and "fits_int32 scale" "scale \<noteq> 0"
    and "a \<noteq> []" "b \<noteq> []" "0 \<notin> set a" "Min (set b) \<noteq> 0"
    and "shape1 yb = 2" "length b = shape0 yb" "shape1 M = shape0 yb" "length a = shape0 M"
  shows "Plot_scatter svds self ot =
           Inr (x', y',
                map (\<lambda>w. w * real_of_int (plot_scale self) * real (length (ot_a ot))) (ot_a ot),
                map (\<lambda>w. w * real_of_int (plot_scale self) * real (length (ot_b ot))) (ot_b ot))
     \<and> barycenters ax yb a b M scale =
           Inr (ax\<lparr>artists := artists ax @
                      [PathCollection yb
                         (map (\<lambda>w. w / (Min (set b) / real_of_int scale)) b) ''X'' ''y'',
                       PathCollection
                         ((matmul M yb)
                            \<lparr>rows := map2 (\<lambda>w r. map (\<lambda>v. 1 / w * v) r) a (rows (matmul M yb))\<rparr>)
                         (map (\<lambda>w. w / (Min (set a) / real_of_int scale)) a) ''X'' ''T(x)''],
                    legend_fontsize := Some 15\<rparr>)"
proof -
  have sc: "Plot_scatter svds self ot =
           Inr (x', y',
                map (\<lambda>w. w * real_of_int (plot_scale self) * real (length (ot_a ot))) (ot_a ot),
                map (\<lambda>w. w * real_of_int (plot_scale self) * real (length (ot_b ot))) (ot_b ot))"
    using assms(1-3) by (simp add: Plot_scatter_def Let_def)
  have "Min (set a) \<in> set a" using assms(6) by simp
  with assms(8) have mina: "Min (set a) \<noteq> 0" by metis
  have first: "ax_scatter ax yb (map (\<lambda>w. size_over w (Min (set b)) scale) b) ''X'' ''y''
      = Inr (length (artists ax),
             ax\<lparr>artists := artists ax @
                  [PathCollection yb (map (\<lambda>w. w / (Min (set b) / real_of_int scale)) b)
                     ''X'' ''y'']\<rparr>)"
    using assms(5,10,11) by (simp add: ax_scatter_def size_over_nonzero)
  have tx: "scale_rows a (matmul M yb)
      = Inr ((matmul M yb)
               \<lparr>rows := map2 (\<lambda>w r. map (\<lambda>v. 1 / w * v) r) a (rows (matmul M yb))\<rparr>)"
  proof -
    have "length a = shape0 (matmul M yb)" using assms(13) by (simp add: matmul_def)
    then show ?thesis by (simp only: scale_rows_def refl if_True)
  qed
  have shape_tx: "shape1 ((matmul M yb)
               \<lparr>rows := map2 (\<lambda>w r. map (\<lambda>v. 1 / w * v) r) a (rows (matmul M yb))\<rparr>) = 2"
    "shape0 ((matmul M yb)
               \<lparr>rows := map2 (\<lambda>w r. map (\<lambda>v. 1 / w * v) r) a (rows (matmul M yb))\<rparr>) = length a"
    using assms(10,13) by (simp_all add: matmul_def)
  have "barycenters ax yb a b M scale =
           Inr (ax\<lparr>artists := artists ax @
                      [PathCollection yb
                         (map (\<lambda>w. w / (Min (set b) / real_of_int scale)) b) ''X'' ''y'',
                       PathCollection
                         ((matmul M yb)
                            \<lparr>rows := map2 (\<lambda>w r. map (\<lambda>v. 1 / w * v) r) a (rows (matmul M yb))\<rparr>)
                         (map (\<lambda>w. w / (Min (set a) / real_of_int scale)) a) ''X'' ''T(x)''],
                    legend_fontsize := Some 15\<rparr>)"
  proof -
    let ?ax1 = "ax\<lparr>artists := artists ax @
                  [PathCollection yb (map (\<lambda>w. w / (Min (set b) / real_of_int scale)) b)
                     ''X'' ''y'']\<rparr>"
    let ?tx = "(matmul M yb)
               \<lparr>rows := map2 (\<lambda>w r. map (\<lambda>v. 1 / w * v) r) a (rows (matmul M yb))\<rparr>"
    have second: "ax_scatter ?ax1 ?tx (map (\<lambda>w. size_over w (Min (set a)) scale) a)
          ''X'' ''T(x)''
        = Inr (length (artists ?ax1),
               ?ax1\<lparr>artists := artists ?ax1 @
                  [PathCollection ?tx (map (\<lambda>w. w / (Min (set a) / real_of_int scale)) a)
                     ''X'' ''T(x)'']\<rparr>)"
      using assms(5) shape_tx by (simp add: ax_scatter_def size_over_nonzero)
    let ?p2 = "PathCollection ?tx (map (\<lambda>w. w / (Min (set a) / real_of_int scale)) a)
                 ''X'' ''T(x)''"
    have "barycenters ax yb a b M scale
        = Inr (ax_legend (?ax1\<lparr>artists := artists ?ax1 @ [?p2]\<rparr>) 15)"
      unfolding barycenters_def
      by (simp only: jnp_min_Min[OF assms(6)] jnp_min_Min[OF assms(7)] first tx second
            assms(4,8,9,12) mina sum.case prod.case refl simp_thms if_True if_False)
    moreover have "ax_legend (?ax1\<lparr>artists := artists ?ax1 @ [?p2]\<rparr>) 15
        = ax\<lparr>artists := artists ax @
                  [PathCollection yb (map (\<lambda>w. w / (Min (set b) / real_of_int scale)) b)
                     ''X'' ''y'', ?p2],
              legend_fontsize := Some 15\<rparr>"
      by (simp add: ax_legend_def)
    ultimately show ?thesis by (simp only:)
  qed
  with sc show ?thesis by simp
qed

text \<open>The theorem of C7 at the example: weights \<open>[1/2, 1/4, 1/4]\<close> and \<open>[1/2, 1/2]\<close>, scale 200.\<close>

theorem point_size_scaling_witness:
  "Plot_scatter example_svds (example_plot (-1) False (7/10)) example_transport =
     Inr (example_x, example_y, [300, 150, 150], [200, 200])
   \<and> barycenters new_axes example_y [1/2, 1/4, 1/4] [1/2, 1/2] example_matrix 200 =
     Inr \<lparr>artists =
            [PathCollection example_y [200, 200] ''X'' ''y'',
             PathCollection
               ((matmul example_matrix example_y)
                  \<lparr>rows := map2 (\<lambda>w r. map (\<lambda>v. 1 / w * v) r) [1/2, 1/4, 1/4]
                             (rows (matmul example_matrix example_y))\<rparr>)
               [400, 200, 200] ''X'' ''T(x)''],
          legend_fontsize = Some 15\<rparr>"
proof -
  have g: "ot_geom example_transport = PointCloud example_x example_y"
    by (simp add: example_transport_def)
  have b: "bidimensional example_svds example_x example_y = Inr (example_x, example_y)"
    by (simp add: bidimensional_def example_x_def)
  have s: "fits_int32 (plot_scale (example_plot (-1) False (7/10)))" "fits_int32 200"
    "(200 :: int) \<noteq> 0"
    by (simp_all add: fits_int32_def example_plot_def)
  have w: "[1/2, 1/4, 1/4] \<noteq> ([] :: real list)" "[1/2, 1/2] \<noteq> ([] :: real list)"
    "0 \<notin> set [1/2, 1/4, 1/4 :: real]" "Min (set [1/2, 1/2 :: real]) \<noteq> 0"
    by simp_all
  have sh: "shape1 example_y = 2" "length [1/2, 1/2 :: real] = shape0 example_y"
    "shape1 example_matrix = shape0 example_y"
    "length [1/2, 1/4, 1/4 :: real] = shape0 example_matrix"
    by (simp_all add: example_y_def example_matrix_def)
  show ?thesis
    using point_size_scaling[OF g b s w sh, of new_axes]
    by (simp add: example_transport_def example_plot_def new_axes_def)
qed

text \<open>With the scale zero the quotients \<open>sa\<close> and \<open>sb\<close> are infinite and every size is zero.\<close>

lemma barycenters_scale_zero:
  "barycenters new_axes example_y [1/2, 1/4, 1/4] [1/2, 1/2] example_matrix 0 =
     Inr \<lparr>artists =
            [PathCollection example_y [0, 0] ''X'' ''y'',
             PathCollection
               ((matmul example_matrix example_y)
                  \<lparr>rows := map2 (\<lambda>w r. map (\<lambda>v. 1 / w * v) r) [1/2, 1/4, 1/4]
                             (rows (matmul example_matrix example_y))\<rparr>)
               [0, 0, 0] ''X'' ''T(x)''],
          legend_fontsize = Some 15\<rparr>"
  by (simp add: barycenters_def fits_int32_def ax_scatter_def scale_rows_def matmul_def
        size_over_def ax_legend_def new_axes_def example_y_def example_matrix_def)

section \<open>The geometry check\<close>

text \<open>The failures that each function can end with.\<close>

lemma bidimensional_failure:
  "bidimensional svds x y = Inl e \<Longrightarrow> e = SvdsError \<or> e = SvdsTypeError"
  by (auto simp: bidimensional_def scipy_svds_def Let_def
        split: if_splits option.splits prod.splits sum.splits)

lemma jnp_min_failure: "jnp_min c = Inl e \<Longrightarrow> e = ZeroSizeReduction"
  by (cases c) simp_all

lemma jnp_max_failure: "jnp_max c = Inl e \<Longrightarrow> e = ZeroSizeReduction"
  by (cases c) simp_all

lemma Plot_mapping_failure: "Plot_mapping self x y M = Inl e \<Longrightarrow> e = ZeroSizeReduction"
  unfolding Plot_mapping_def Let_def
  by (auto split: if_splits sum.splits dest: jnp_min_failure jnp_max_failure)

lemma ax_scatter_failure:
  "ax_scatter ax pts s m l = Inl e \<Longrightarrow> e = ScatterArguments \<or> e = ScatterSizes"
  by (auto simp: ax_scatter_def split: if_splits)

lemma ax_set_offsets_failure: "ax_set_offsets ax h pts = Inl e \<Longrightarrow> e = OffsetsIndexError"
  by (auto simp: ax_set_offsets_def split: if_splits)

lemma Plot_scatter_geometry:
  "Plot_scatter svds self ot = Inl GeometryKindError \<longleftrightarrow> \<not> is_PointCloud (ot_geom ot)"
  by (cases "ot_geom ot")
     (auto simp: Plot_scatter_def Let_def split: sum.splits if_splits
        dest: bidimensional_failure)

lemma Plot_call_after_scatter:
  assumes "Plot_scatter svds self ot = Inr r"
  shows "Plot_call svds self ot \<noteq> Inl GeometryKindError"
proof
  assume bad: "Plot_call svds self ot = Inl GeometryKindError"
  obtain x y sx sy where r: "r = (x, y, sx, sy)" by (cases r)
  show False
  proof (cases "ax_scatter (plot_ax self) x sx ''o'' ''x''")
    case (Inl e)
    with bad assms r show False
      by (auto simp: Plot_call_def dest: ax_scatter_failure)
  next
    case first: (Inr hx)
    obtain px ax1 where hx: "hx = (px, ax1)" by (cases hx)
    show False
    proof (cases "ax_scatter ax1 y sy ''X'' ''y''")
      case (Inl e)
      with bad assms r first hx show False
        by (auto simp: Plot_call_def dest: ax_scatter_failure)
    next
      case second: (Inr hy)
      obtain py ax2 where hy: "hy = (py, ax2)" by (cases hy)
      from bad assms r first hx second hy show False
        by (auto simp: Plot_call_def Let_def split: if_splits sum.splits prod.splits
              dest: Plot_mapping_failure)
    qed
  qed
qed

lemma Plot_update_after_scatter:
  assumes "Plot_scatter svds self ot = Inr r"
  shows "Plot_update svds self ot \<noteq> Inl GeometryKindError"
proof
  assume bad: "Plot_update svds self ot = Inl GeometryKindError"
  obtain x y sx sy where r: "r = (x, y, sx, sy)" by (cases r)
  from bad assms r show False
    by (auto simp: Plot_update_def Let_def
          split: option.splits sum.splits if_splits prod.splits
          dest: Plot_mapping_failure ax_set_offsets_failure)
qed

text \<open>
  Claim C8: \<open>_scatter\<close>, and with it \<open>__call__\<close> and \<open>update\<close>, raises the error about the
  geometry kind exactly when \<open>ot.geom\<close> is no point cloud.
\<close>

theorem geometry_kind_error_iff:
  "(Plot_scatter svds self ot = Inl GeometryKindError \<longleftrightarrow> \<not> is_PointCloud (ot_geom ot))
   \<and> (Plot_call svds self ot = Inl GeometryKindError \<longleftrightarrow> \<not> is_PointCloud (ot_geom ot))
   \<and> (Plot_update svds self ot = Inl GeometryKindError \<longleftrightarrow> \<not> is_PointCloud (ot_geom ot))"
proof (intro conjI)
  show sc: "Plot_scatter svds self ot = Inl GeometryKindError \<longleftrightarrow> \<not> is_PointCloud (ot_geom ot)"
    by (rule Plot_scatter_geometry)
  show "Plot_call svds self ot = Inl GeometryKindError \<longleftrightarrow> \<not> is_PointCloud (ot_geom ot)"
  proof (cases "Plot_scatter svds self ot")
    case (Inl e)
    then have "Plot_call svds self ot = Inl e" by (simp add: Plot_call_def)
    with Inl sc show ?thesis by auto
  next
    case (Inr r)
    with sc Plot_call_after_scatter[OF Inr] show ?thesis by auto
  qed
  show "Plot_update svds self ot = Inl GeometryKindError \<longleftrightarrow> \<not> is_PointCloud (ot_geom ot)"
  proof (cases "Plot_scatter svds self ot")
    case (Inl e)
    then have "Plot_update svds self ot = Inl e" by (simp add: Plot_update_def)
    with Inl sc show ?thesis by auto
  next
    case (Inr r)
    with sc Plot_update_after_scatter[OF Inr] show ?thesis by auto
  qed
qed

text \<open>The theorem of C8 at the example output and at its copy with another geometry.\<close>

theorem geometry_kind_error_iff_witness:
  "Plot_scatter example_svds example_drawn_plot example_other_transport = Inl GeometryKindError
   \<and> Plot_call example_svds example_drawn_plot example_other_transport = Inl GeometryKindError
   \<and> Plot_update example_svds example_drawn_plot example_other_transport = Inl GeometryKindError
   \<and> Plot_scatter example_svds example_drawn_plot example_transport \<noteq> Inl GeometryKindError
   \<and> Plot_call example_svds example_drawn_plot example_transport \<noteq> Inl GeometryKindError
   \<and> Plot_update example_svds example_drawn_plot example_transport \<noteq> Inl GeometryKindError"
  using geometry_kind_error_iff[of example_svds example_drawn_plot example_other_transport]
    geometry_kind_error_iff[of example_svds example_drawn_plot example_transport]
  by (simp add: example_other_transport_def example_transport_def)

section \<open>Default weights of the barycentric projections\<close>

lemma ones_over_n: "map (\<lambda>v. v / real n) (jnp_ones n) = replicate n (1 / real n)"
  by (simp add: jnp_ones_def)

text \<open>
  Claim C9: when \<open>barycentric_projections\<close> is called with an array and a matrix, a
  weight argument \<open>a\<close> that is \<open>None\<close> becomes the vector of length \<open>matrix.shape[0]\<close>
  with every entry \<open>1 / matrix.shape[0]\<close>, a \<open>b\<close> that is \<open>None\<close> the vector of length
  \<open>matrix.shape[1]\<close> with every entry \<open>1 / matrix.shape[1]\<close>, and these are the weights
  in the call of \<open>_barycenters\<close>.
\<close>

theorem default_weights_are_uniform:
  "barycentric_projections_args True (JaxArray y) a b (Some M) ax kw =
     Inr (case ax of None \<Rightarrow> new_axes | Some given \<Rightarrow> given, y,
          case a of None \<Rightarrow> replicate (shape0 M) (1 / real (shape0 M)) | Some given \<Rightarrow> given,
          case b of None \<Rightarrow> replicate (shape1 M) (1 / real (shape1 M)) | Some given \<Rightarrow> given,
          M, case kw of None \<Rightarrow> 200 | Some s \<Rightarrow> s)
   \<and> barycentric_projections True (JaxArray y) a b (Some M) ax kw =
     barycenters (case ax of None \<Rightarrow> new_axes | Some given \<Rightarrow> given) y
       (case a of None \<Rightarrow> replicate (shape0 M) (1 / real (shape0 M)) | Some given \<Rightarrow> given)
       (case b of None \<Rightarrow> replicate (shape1 M) (1 / real (shape1 M)) | Some given \<Rightarrow> given)
       M (case kw of None \<Rightarrow> 200 | Some s \<Rightarrow> s)"
proof -
  have args: "barycentric_projections_args True (JaxArray y) a b (Some M) ax kw =
     Inr (case ax of None \<Rightarrow> new_axes | Some given \<Rightarrow> given, y,
          case a of None \<Rightarrow> replicate (shape0 M) (1 / real (shape0 M)) | Some given \<Rightarrow> given,
          case b of None \<Rightarrow> replicate (shape1 M) (1 / real (shape1 M)) | Some given \<Rightarrow> given,
          M, case kw of None \<Rightarrow> 200 | Some s \<Rightarrow> s)"
    by (simp add: barycentric_projections_args_def ones_over_n Let_def split: option.splits)
  then show ?thesis
    by (simp add: barycentric_projections_def)
qed

text \<open>The theorem of C9 at the 3\<times>2 example matrix.\<close>

theorem default_weights_are_uniform_witness:
  "barycentric_projections_args True (JaxArray example_y) None None (Some example_matrix)
       None None =
     Inr (new_axes, example_y, [1/3, 1/3, 1/3], [1/2, 1/2], example_matrix, 200)
   \<and> barycentric_projections True (JaxArray example_y) None None (Some example_matrix)
       None None =
     barycenters new_axes example_y [1/3, 1/3, 1/3] [1/2, 1/2] example_matrix 200"
  using default_weights_are_uniform[of example_y None None example_matrix None None]
  by (simp add: example_matrix_def numeral_3_eq_3 numeral_2_eq_2)

section \<open>Plots without lines\<close>

text \<open>Offsets with two columns are stored as they are.\<close>

lemma first_two_columns_id:
  "wf_array pts \<Longrightarrow> shape1 pts = 2 \<Longrightarrow> first_two_columns pts = pts"
proof -
  assume wf: "wf_array pts" and two: "shape1 pts = 2"
  have "map (take 2) (rows pts) = rows pts"
    using wf two by (intro map_idI) (simp add: wf_array_def)
  with two show ?thesis by (simp add: first_two_columns_def)
qed

text \<open>
  Claim C10 as it was stated holds for every transport input. For point clouds on a
  line, \<open>_scatter\<close> returns the points as they are, \<open>x.T\<close> has one row, and
  \<open>ax.scatter(*x.T, ...)\<close> raises \<open>TypeError\<close>: \<open>__call__\<close> returns no list and draws
  nothing.
\<close>

theorem line_points_are_not_plotted:
  "\<not> plot_show_lines example_drawn_plot
   \<and> Plot_scatter example_svds example_drawn_plot example_line_transport
       = Inr (\<lparr>shape0 = 3, shape1 = 1, rows = [[1], [3], [5]]\<rparr>,
              \<lparr>shape0 = 2, shape1 = 1, rows = [[10], [30]]\<rparr>, [300, 150, 150], [200, 200])
   \<and> Plot_call example_svds example_drawn_plot example_line_transport = Inl ScatterArguments"
  by (simp add: Plot_call_def Plot_scatter_def bidimensional_def ax_scatter_def fits_int32_def
        example_line_transport_def example_drawn_plot_def)

text \<open>
  Claim C10, as amended. On a plot object with \<open>show_lines = False\<close>, for a transport
  input whose point clouds \<open>_scatter\<close> returns with two columns and with as many sizes
  as points, \<open>__call__\<close> and \<open>update\<close> return the empty list of handles; before that
  \<open>__call__\<close> has drawn the two scatters and the legend, and \<open>update\<close>, when the two
  scatters exist, has set their offsets.
\<close>

theorem no_lines_no_handles:
  assumes "\<not> plot_show_lines self" and "Plot_scatter svds self ot = Inr (x, y, sx, sy)"
    and "wf_array x" "shape1 x = 2" "length sx = shape0 x"
    and "wf_array y" "shape1 y = 2" "length sy = shape0 y"
  shows "Plot_call svds self ot =
           Inr ([], self\<lparr>plot_ax := (plot_ax self)
                              \<lparr>artists := artists (plot_ax self) @
                                  [PathCollection x sx ''o'' ''x'', PathCollection y sy ''X'' ''y''],
                               legend_fontsize := Some 15\<rparr>,
                          plot_points_x := Some (length (artists (plot_ax self))),
                          plot_points_y := Some (Suc (length (artists (plot_ax self))))\<rparr>)
     \<and> (\<forall>px py. plot_points_x self = Some px \<and> plot_points_y self = Some py \<longrightarrow>
          Plot_update svds self ot =
            Inr ([], self\<lparr>plot_ax := (plot_ax self)
                  \<lparr>artists :=
                     ((artists (plot_ax self))
                        [px := set_offsets (artists (plot_ax self) ! px) x])
                        [py := set_offsets
                                 ((artists (plot_ax self))
                                    [px := set_offsets (artists (plot_ax self) ! px) x] ! py)
                                 y]\<rparr>\<rparr>))"
proof (intro conjI allI impI)
  show "Plot_call svds self ot =
           Inr ([], self\<lparr>plot_ax := (plot_ax self)
                              \<lparr>artists := artists (plot_ax self) @
                                  [PathCollection x sx ''o'' ''x'', PathCollection y sy ''X'' ''y''],
                               legend_fontsize := Some 15\<rparr>,
                          plot_points_x := Some (length (artists (plot_ax self))),
                          plot_points_y := Some (Suc (length (artists (plot_ax self))))\<rparr>)"
    using assms(1,2,4,5,7,8)
    by (simp add: Plot_call_def ax_scatter_def ax_legend_def Let_def)
next
  fix px py
  assume pts: "plot_points_x self = Some px \<and> plot_points_y self = Some py"
  show "Plot_update svds self ot =
            Inr ([], self\<lparr>plot_ax := (plot_ax self)
                  \<lparr>artists :=
                     ((artists (plot_ax self))
                        [px := set_offsets (artists (plot_ax self) ! px) x])
                        [py := set_offsets
                                 ((artists (plot_ax self))
                                    [px := set_offsets (artists (plot_ax self) ! px) x] ! py)
                                 y]\<rparr>\<rparr>)"
    using assms(1,2,4,7) pts
    by (simp add: Plot_update_def ax_set_offsets_def Let_def
          first_two_columns_id[OF assms(3,4)] first_two_columns_id[OF assms(6,7)])
qed

text \<open>The theorem of C10 at the example plot, whose scatters have no point yet.\<close>

theorem no_lines_no_handles_witness:
  "\<not> plot_show_lines example_drawn_plot
   \<and> Plot_call example_svds example_drawn_plot example_transport =
       Inr ([], example_drawn_plot
               \<lparr>plot_ax := \<lparr>artists =
                    [PathCollection (slice_to example_x 0) [] ''o'' ''x'',
                     PathCollection (slice_to example_y 0) [] ''X'' ''y'',
                     PathCollection example_x [300, 150, 150] ''o'' ''x'',
                     PathCollection example_y [200, 200] ''X'' ''y''],
                  legend_fontsize = Some 15\<rparr>,
                plot_points_x := Some 2, plot_points_y := Some 3\<rparr>)
   \<and> Plot_update example_svds example_drawn_plot example_transport =
       Inr ([], example_drawn_plot
               \<lparr>plot_ax := \<lparr>artists =
                    [PathCollection example_x [] ''o'' ''x'',
                     PathCollection example_y [] ''X'' ''y''],
                  legend_fontsize = Some 15\<rparr>\<rparr>)"
proof -
  have off: "\<not> plot_show_lines example_drawn_plot"
    by (simp add: example_drawn_plot_def)
  have sc: "Plot_scatter example_svds example_drawn_plot example_transport =
      Inr (example_x, example_y, [300, 150, 150], [200, 200])"
    by (simp add: Plot_scatter_def bidimensional_def example_transport_def example_x_def
          example_drawn_plot_def fits_int32_def)
  have x: "wf_array example_x" "shape1 example_x = 2"
    "length [300, 150, 150 :: real] = shape0 example_x"
    by (simp_all add: wf_array_def example_x_def)
  have y: "wf_array example_y" "shape1 example_y = 2"
    "length [200, 200 :: real] = shape0 example_y"
    by (simp_all add: wf_array_def example_y_def)
  have px: "plot_points_x example_drawn_plot = Some 0 \<and> plot_points_y example_drawn_plot = Some 1"
    by (simp add: example_drawn_plot_def)
  show ?thesis
    using off px no_lines_no_handles[OF off sc x y]
    by (simp add: example_drawn_plot_def)
qed

text \<open>The flag \<open>show_lines\<close>: the constructor sets it and no call changes it.\<close>

lemma Plot_init_show_lines:
  "Plot_init present gca fg ax t s sl cm fl al = Inr p \<Longrightarrow> plot_show_lines p = sl"
  by (auto simp: Plot_init_def split: if_splits)

lemma Plot_call_show_lines:
  "Plot_call svds self ot = Inr (hs, self') \<Longrightarrow> plot_show_lines self' = plot_show_lines self"
  by (auto simp: Plot_call_def Let_def split: sum.splits prod.splits if_splits)

lemma Plot_update_show_lines:
  "Plot_update svds self ot = Inr (hs, self') \<Longrightarrow> plot_show_lines self' = plot_show_lines self"
  by (auto simp: Plot_update_def Let_def split: sum.splits prod.splits if_splits option.splits)

end
